theory Spec2Isabelle
  imports Complex_Main "HOL-Library.AList"
begin

text \<open>
  A verification development of the Adaptive Lighting integration for Home Assistant
  (\<^verbatim>\<open>custom_components/adaptive_lighting/__init__.py\<close>): the configuration schema
  \<^verbatim>\<open>CONFIG_SCHEMA\<close>, the capability table \<^verbatim>\<open>_SUPPORT_OPTS\<close> and the two set-up functions. The
  schema is a value of the validation library voluptuous, so the library's semantics is
  modelled first; the host's own validators and constants are parameters.
\<close>

section \<open>Python values\<close>

text \<open>
  The configuration document reaches \<^verbatim>\<open>CONFIG_SCHEMA\<close> as a tree of Python values
  (the result of loading YAML): \<^verbatim>\<open>None\<close>, booleans, unbounded integers, floats, strings,
  lists and dictionaries. Validators of the host also return \<^verbatim>\<open>datetime.timedelta\<close> and
  \<^verbatim>\<open>datetime.time\<close> objects.

  \<^item> A finite float is the rational number it denotes; the two infinities and NaN are
    separate values. Only \<^verbatim>\<open>int(x)\<close> and comparisons with integers are taken of a float,
    and both are exact on the denoted number.
  \<^item> A string is ASCII text: a list of characters with codes below 128. A string with
    any other character is outside the model (\<^verbatim>\<open>int\<close> also reads the spaces and the
    decimal digits of other scripts, which are not described here).
  \<^item> A dictionary with string keys is an association list; the first binding of a key
    is the dictionary's entry for it (\<open>map_of\<close>). \<open>AList.update k v d\<close> is \<^verbatim>\<open>d[k] = v\<close>.
  \<^item> A \<^verbatim>\<open>timedelta\<close> is its whole number of microseconds.
\<close>

datatype pyfloat = Finite rat | PosInf | NegInf | NaN

datatype pyval =
    PNone
  | PBool bool
  | PInt int
  | PFloat pyfloat
  | PStr string
  | PTimedelta int
  | PTime nat nat nat
  | PList "pyval list"
  | PDict "(string \<times> pyval) list"

datatype pyexc = ValueError | TypeError | OverflowError

subsection \<open>The builtin \<^verbatim>\<open>int(x)\<close>\<close>

text \<open>
  \<^verbatim>\<open>int(s)\<close> of an ASCII string (CPython's \<^verbatim>\<open>PyLong_FromString\<close>, base 10): whitespace
  (\<^verbatim>\<open>Py_ISSPACE\<close>: codes 9 to 13 and 32) is skipped on both sides, one sign may follow, then
  come decimal digits, where single underscores may stand between two digits. Anything
  else raises \<^verbatim>\<open>ValueError\<close>, and so does a literal of more digits than the interpreter's
  limit for the conversion of strings to integers (\<^verbatim>\<open>sys.get_int_max_str_digits()\<close>, 4300
  unless the interpreter is configured otherwise; leading zeros count, underscores do not).
\<close>

definition max_str_digits :: nat where
  "max_str_digits = 4300"

definition is_space :: "char \<Rightarrow> bool" where
  "is_space c = ((of_char c :: nat) \<in> set [9, 10, 11, 12, 13, 32])"

definition is_digit :: "char \<Rightarrow> bool" where
  "is_digit c = (48 \<le> (of_char c :: nat) \<and> (of_char c :: nat) \<le> 57)"

definition digit_of :: "char \<Rightarrow> nat" where
  "digit_of c = of_char c - 48"

definition digits_value :: "string \<Rightarrow> nat" where
  "digits_value s = foldl (\<lambda>a c. 10 * a + digit_of c) 0 s"

fun double_underscore :: "string \<Rightarrow> bool" where
  "double_underscore (a # b # r) =
     ((a = CHR ''_'' \<and> b = CHR ''_'') \<or> double_underscore (b # r))"
| "double_underscore _ = False"

definition digit_or_underscore :: "char \<Rightarrow> bool" where
  "digit_or_underscore c = (is_digit c \<or> c = CHR ''_'')"

definition split_sign :: "string \<Rightarrow> bool \<times> string" where
  "split_sign s =
     (case s of
        [] \<Rightarrow> (False, [])
      | c # r \<Rightarrow>
          if c = CHR ''+'' then (False, r)
          else if c = CHR ''-'' then (True, r)
          else (False, s))"

definition py_int_str :: "string \<Rightarrow> int option" where
  "py_int_str s =
     (let (neg, s2) = split_sign (dropWhile is_space s);
          body = takeWhile digit_or_underscore s2;
          rest = dropWhile digit_or_underscore s2
      in if body = [] \<or> hd body = CHR ''_'' \<or> last body = CHR ''_''
            \<or> double_underscore body \<or> \<not> list_all is_space rest
            \<or> max_str_digits < length (filter is_digit body)
         then None
         else Some ((if neg then - 1 else 1) * int (digits_value (filter is_digit body))))"

text \<open>\<^verbatim>\<open>int(x)\<close> of a float truncates towards zero.\<close>

definition py_trunc :: "rat \<Rightarrow> int" where
  "py_trunc q = (if 0 \<le> q then \<lfloor>q\<rfloor> else \<lceil>q\<rceil>)"

fun py_int :: "pyval \<Rightarrow> pyexc + int" where
  "py_int (PInt n) = Inr n"
| "py_int (PBool b) = Inr (if b then 1 else 0)"
| "py_int (PFloat (Finite q)) = Inr (py_trunc q)"
| "py_int (PFloat PosInf) = Inl OverflowError"
| "py_int (PFloat NegInf) = Inl OverflowError"
| "py_int (PFloat NaN) = Inl ValueError"
| "py_int (PStr s) = (case py_int_str s of Some n \<Rightarrow> Inr n | None \<Rightarrow> Inl ValueError)"
| "py_int PNone = Inl TypeError"
| "py_int (PTimedelta t) = Inl TypeError"
| "py_int (PTime h m s) = Inl TypeError"
| "py_int (PList xs) = Inl TypeError"
| "py_int (PDict d) = Inl TypeError"

text \<open>\<^verbatim>\<open>str(n)\<close> of an integer: its decimal digits, after a minus sign when negative.\<close>

fun str_nat :: "nat \<Rightarrow> string" where
  "str_nat n =
     (if n < 10 then [char_of (48 + n)]
      else str_nat (n div 10) @ [char_of (48 + n mod 10)])"

definition str_int :: "int \<Rightarrow> string" where
  "str_int n = (if n < 0 then CHR ''-'' # str_nat (nat (- n)) else str_nat (nat n))"

text \<open>The number a string of decimal digits denotes, by the place of each digit.\<close>

fun decimal_value :: "string \<Rightarrow> nat" where
  "decimal_value [] = 0"
| "decimal_value (c # cs) = digit_of c * 10 ^ length cs + decimal_value cs"

text \<open>
  \<^verbatim>\<open>x >= n\<close> and \<^verbatim>\<open>x <= n\<close> for an integer \<open>n\<close>: \<open>None\<close> stands for the \<^verbatim>\<open>TypeError\<close> of
  an operand that has no order with integers. NaN compares false with everything.
\<close>

fun py_ge :: "pyval \<Rightarrow> int \<Rightarrow> bool option" where
  "py_ge (PInt n) b = Some (b \<le> n)"
| "py_ge (PBool x) b = Some (b \<le> (if x then 1 else 0))"
| "py_ge (PFloat (Finite q)) b = Some (of_int b \<le> q)"
| "py_ge (PFloat PosInf) b = Some True"
| "py_ge (PFloat NegInf) b = Some False"
| "py_ge (PFloat NaN) b = Some False"
| "py_ge _ b = None"

fun py_le :: "pyval \<Rightarrow> int \<Rightarrow> bool option" where
  "py_le (PInt n) b = Some (n \<le> b)"
| "py_le (PBool x) b = Some ((if x then 1 else 0) \<le> b)"
| "py_le (PFloat (Finite q)) b = Some (q \<le> of_int b)"
| "py_le (PFloat PosInf) b = Some False"
| "py_le (PFloat NegInf) b = Some True"
| "py_le (PFloat NaN) b = Some False"
| "py_le _ b = None"

section \<open>The validation library (voluptuous)\<close>

text \<open>
  A validator takes a value and returns the validated value or fails. A failure is
  \<^item> \<open>MultipleInvalid es\<close>: validation errors, each a message and the path of keys and
    list indices to the offending value (the library's \<^verbatim>\<open>Invalid\<close> is the one-error case);
  \<^item> \<open>Uncaught e\<close>: a Python exception that the library does not turn into a validation
    error and that therefore ends the validation at once;
  \<^item> \<open>Unmodelled\<close>: the host's result on this input is not described here (returned only
    by the reference host \<open>ha\<close> below, never by this repository's validators).
\<close>

datatype pathelem = Key string | Index nat

datatype invalid = Invalid string "pathelem list"

datatype failure = MultipleInvalid "invalid list" | Uncaught pyexc | Unmodelled

type_synonym validator = "pyval \<Rightarrow> failure + pyval"

definition fail_invalid :: "string \<Rightarrow> failure + 'a" where
  "fail_invalid msg = Inl (MultipleInvalid [Invalid msg []])"

definition accepts :: "validator \<Rightarrow> pyval \<Rightarrow> bool" where
  "accepts f v = (\<not> isl (f v))"

fun prepend :: "pathelem \<Rightarrow> invalid \<Rightarrow> invalid" where
  "prepend p (Invalid msg path) = Invalid msg (p # path)"

text \<open>
  \<^verbatim>\<open>vol.Coerce(int)\<close>: calls \<^verbatim>\<open>int(v)\<close>; \<^verbatim>\<open>ValueError\<close> and \<^verbatim>\<open>TypeError\<close> become the
  validation error "expected int", any other exception passes through.
\<close>

definition vol_Coerce_int :: validator where
  "vol_Coerce_int v =
     (case py_int v of
        Inr n \<Rightarrow> Inr (PInt n)
      | Inl ValueError \<Rightarrow> fail_invalid ''expected int''
      | Inl TypeError \<Rightarrow> fail_invalid ''expected int''
      | Inl OverflowError \<Rightarrow> Inl (Uncaught OverflowError))"

text \<open>
  \<^verbatim>\<open>vol.Range(min=lo, max=hi)\<close>, both bounds included: fails when \<^verbatim>\<open>not v >= lo\<close>, then
  when \<^verbatim>\<open>not v <= hi\<close>; a \<^verbatim>\<open>TypeError\<close> of the comparison is a validation error too. The
  value is returned unchanged.
\<close>

definition vol_Range :: "int \<Rightarrow> int \<Rightarrow> validator" where
  "vol_Range lo hi v =
     (case py_ge v lo of
        None \<Rightarrow> fail_invalid ''invalid value or type (must have a partial ordering)''
      | Some False \<Rightarrow> fail_invalid (''value must be at least '' @ str_int lo)
      | Some True \<Rightarrow>
          (case py_le v hi of
             None \<Rightarrow> fail_invalid ''invalid value or type (must have a partial ordering)''
           | Some False \<Rightarrow> fail_invalid (''value must be at most '' @ str_int hi)
           | Some True \<Rightarrow> Inr v))"

text \<open>
  A callable used as a schema is wrapped by the library: a \<^verbatim>\<open>ValueError\<close> it raises
  becomes the validation error "not a valid value".
\<close>

definition callable :: "validator \<Rightarrow> validator" where
  "callable f v =
     (case f v of
        Inl (Uncaught ValueError) \<Rightarrow> fail_invalid ''not a valid value''
      | r \<Rightarrow> r)"

text \<open>\<^verbatim>\<open>vol.All(f1, ..., fn)\<close>: the value runs through the validators in turn.\<close>

fun vol_All :: "validator list \<Rightarrow> validator" where
  "vol_All [] v = Inr v"
| "vol_All (f # fs) v = (case callable f v of Inl e \<Rightarrow> Inl e | Inr w \<Rightarrow> vol_All fs w)"

text \<open>
  Validating the entries of a mapping or a sequence: every entry is validated, the
  validation errors of all entries are gathered into one \<open>MultipleInvalid\<close>, and an
  uncaught exception ends the validation. An entry's result \<open>Inr None\<close> contributes
  nothing to the output.
\<close>

fun collect :: "(failure + 'a option) list \<Rightarrow> failure + 'a list" where
  "collect [] = Inr []"
| "collect (r # rs) =
     (case r of
        Inl (MultipleInvalid es) \<Rightarrow>
          (case collect rs of
             Inl (MultipleInvalid es') \<Rightarrow> Inl (MultipleInvalid (es @ es'))
           | Inl e \<Rightarrow> Inl e
           | Inr xs \<Rightarrow> Inl (MultipleInvalid es))
      | Inl e \<Rightarrow> Inl e
      | Inr x \<Rightarrow>
          (case collect rs of
             Inl e \<Rightarrow> Inl e
           | Inr xs \<Rightarrow> Inr (case x of None \<Rightarrow> xs | Some y \<Rightarrow> y # xs)))"

definition at_path :: "pathelem \<Rightarrow> failure + pyval \<Rightarrow> failure + pyval" where
  "at_path p r =
     (case r of
        Inl (MultipleInvalid es) \<Rightarrow> Inl (MultipleInvalid (map (prepend p) es))
      | _ \<Rightarrow> r)"

text \<open>
  A list schema with one element validator, \<^verbatim>\<open>[f]\<close>: the value must be a list, and each
  element must pass \<open>f\<close>.
\<close>

definition element_result :: "validator \<Rightarrow> nat \<times> pyval \<Rightarrow> failure + pyval option" where
  "element_result f ix = map_sum id Some (at_path (Index (fst ix)) (callable f (snd ix)))"

definition Schema_list :: "validator \<Rightarrow> validator" where
  "Schema_list f v =
     (case v of
        PList xs \<Rightarrow> map_sum id PList (collect (map (element_result f) (enumerate 0 xs)))
      | _ \<Rightarrow> fail_invalid ''expected a list'')"

text \<open>
  A dictionary schema. Each schema key is a literal string, bare or marked
  \<^verbatim>\<open>vol.Required\<close> or \<^verbatim>\<open>vol.Optional\<close>, with or without a default.
  \<^item> A key that the data lacks and that has a default gets the default, which is then
    validated like a supplied value.
  \<^item> A key that the data lacks and that has no default is an error when it is
    \<^verbatim>\<open>Required\<close> and is left out of the result otherwise (the schemas here are built
    with \<^verbatim>\<open>required=False\<close>, the library's default, so a bare key is optional).
  \<^item> A key of the data that the schema does not name is kept (\<^verbatim>\<open>ALLOW_EXTRA\<close>), dropped
    (\<^verbatim>\<open>REMOVE_EXTRA\<close>) or an error (\<^verbatim>\<open>PREVENT_EXTRA\<close>, the library's default).
  The library validates the entries in the order of the data and then the defaults; here
  the schema's entries come first, in the schema's order, and the extra keys after them.
  The order decides only the order of the gathered errors and which of several uncaught
  exceptions is met first.
\<close>

datatype marker = Required | Optional | Bare

datatype extra = PREVENT_EXTRA | ALLOW_EXTRA | REMOVE_EXTRA

type_synonym schema_entry = "marker \<times> string \<times> pyval option \<times> validator"

definition entry_key :: "schema_entry \<Rightarrow> string" where
  "entry_key e = fst (snd e)"

fun entry_value :: "(string \<times> pyval) list \<Rightarrow> schema_entry \<Rightarrow> pyval option" where
  "entry_value d (m, k, dflt, f) = (case map_of d k of Some v \<Rightarrow> Some v | None \<Rightarrow> dflt)"

fun validate_entry ::
  "(string \<times> pyval) list \<Rightarrow> schema_entry \<Rightarrow> failure + (string \<times> pyval) option" where
  "validate_entry d (m, k, dflt, f) =
     (case entry_value d (m, k, dflt, f) of
        None \<Rightarrow>
          if m = Required
          then Inl (MultipleInvalid [Invalid ''required key not provided'' [Key k]])
          else Inr None
      | Some v \<Rightarrow> map_sum id (\<lambda>w. Some (k, w)) (at_path (Key k) (callable f v)))"

definition extra_keys :: "schema_entry list \<Rightarrow> (string \<times> pyval) list \<Rightarrow> (string \<times> pyval) list" where
  "extra_keys sch d = filter (\<lambda>kv. fst kv \<notin> set (map entry_key sch)) d"

fun validate_extra :: "extra \<Rightarrow> string \<times> pyval \<Rightarrow> failure + (string \<times> pyval) option" where
  "validate_extra PREVENT_EXTRA (k, v) =
     Inl (MultipleInvalid [Invalid ''extra keys not allowed'' [Key k]])"
| "validate_extra ALLOW_EXTRA (k, v) = Inr (Some (k, v))"
| "validate_extra REMOVE_EXTRA (k, v) = Inr None"

definition validate_mapping ::
  "schema_entry list \<Rightarrow> extra \<Rightarrow> (string \<times> pyval) list \<Rightarrow> failure + (string \<times> pyval) list" where
  "validate_mapping sch ex d =
     collect (map (validate_entry d) sch @ map (validate_extra ex) (extra_keys sch d))"

definition Schema :: "schema_entry list \<Rightarrow> extra \<Rightarrow> validator" where
  "Schema sch ex v =
     (case v of
        PDict d \<Rightarrow> map_sum id PDict (validate_mapping sch ex d)
      | _ \<Rightarrow> fail_invalid ''expected a dictionary'')"


section \<open>The host's validators and constants\<close>

text \<open>
  \<^verbatim>\<open>CONFIG_SCHEMA\<close> uses validators of the host platform
  (\<^verbatim>\<open>homeassistant.helpers.config_validation\<close> as \<^verbatim>\<open>cv\<close>, and \<^verbatim>\<open>VALID_TRANSITION\<close> of
  \<^verbatim>\<open>homeassistant.components.light\<close>). They are not part of this repository: the schema
  takes them as a parameter, and a theorem holds for every host that meets the
  hypotheses it states.
\<close>

record host =
  cv_string :: validator
  cv_entity_ids :: validator
  cv_boolean :: validator
  cv_entity_id :: validator
  cv_ensure_list :: validator
  cv_time_period :: validator
  cv_time :: validator
  VALID_TRANSITION :: validator

text \<open>
  Modelled from the spec: \<^verbatim>\<open>const.py\<close>, which defines \<^verbatim>\<open>DOMAIN\<close>, the \<^verbatim>\<open>CONF_*\<close> key names
  and the \<^verbatim>\<open>DEFAULT_*\<close> values, is not under src/. The key names are the configuration
  keys that the spec lists (section 6); the domain is the name of the integration's
  directory.
\<close>

definition DOMAIN :: string where "DOMAIN = ''adaptive_lighting''"
definition CONF_NAME :: string where "CONF_NAME = ''name''"
definition CONF_LIGHTS :: string where "CONF_LIGHTS = ''lights''"
definition CONF_DISABLE_BRIGHTNESS_ADJUST :: string where
  "CONF_DISABLE_BRIGHTNESS_ADJUST = ''disable_brightness_adjust''"
definition CONF_DISABLE_ENTITY :: string where "CONF_DISABLE_ENTITY = ''disable_entity''"
definition CONF_DISABLE_STATE :: string where "CONF_DISABLE_STATE = ''disable_state''"
definition CONF_INITIAL_TRANSITION :: string where
  "CONF_INITIAL_TRANSITION = ''initial_transition''"
definition CONF_INTERVAL :: string where "CONF_INTERVAL = ''interval''"
definition CONF_MAX_BRIGHTNESS :: string where "CONF_MAX_BRIGHTNESS = ''max_brightness''"
definition CONF_MAX_COLOR_TEMP :: string where "CONF_MAX_COLOR_TEMP = ''max_color_temp''"
definition CONF_MIN_BRIGHTNESS :: string where "CONF_MIN_BRIGHTNESS = ''min_brightness''"
definition CONF_MIN_COLOR_TEMP :: string where "CONF_MIN_COLOR_TEMP = ''min_color_temp''"
definition CONF_ONLY_ONCE :: string where "CONF_ONLY_ONCE = ''only_once''"
definition CONF_SLEEP_BRIGHTNESS :: string where "CONF_SLEEP_BRIGHTNESS = ''sleep_brightness''"
definition CONF_SLEEP_COLOR_TEMP :: string where "CONF_SLEEP_COLOR_TEMP = ''sleep_color_temp''"
definition CONF_SLEEP_ENTITY :: string where "CONF_SLEEP_ENTITY = ''sleep_entity''"
definition CONF_SLEEP_STATE :: string where "CONF_SLEEP_STATE = ''sleep_state''"
definition CONF_SUNRISE_OFFSET :: string where "CONF_SUNRISE_OFFSET = ''sunrise_offset''"
definition CONF_SUNRISE_TIME :: string where "CONF_SUNRISE_TIME = ''sunrise_time''"
definition CONF_SUNSET_OFFSET :: string where "CONF_SUNSET_OFFSET = ''sunset_offset''"
definition CONF_SUNSET_TIME :: string where "CONF_SUNSET_TIME = ''sunset_time''"
definition CONF_TRANSITION :: string where "CONF_TRANSITION = ''transition''"

text \<open>
  Modelled from the spec: \<^verbatim>\<open>DEFAULT_INTERVAL\<close> of \<^verbatim>\<open>const.py\<close> (not under src/). The spec
  gives the interval's default as 90 s; \<^verbatim>\<open>cv.time_period\<close> takes a number as a number
  of seconds.
\<close>

definition DEFAULT_INTERVAL :: pyval where "DEFAULT_INTERVAL = PInt 90"

text \<open>
  The other defaults of \<^verbatim>\<open>const.py\<close>, which the spec does not give: a parameter of the
  schema.
\<close>

record defaults =
  DEFAULT_NAME :: pyval
  DEFAULT_LIGHTS :: pyval
  DEFAULT_DISABLE_BRIGHTNESS_ADJUST :: pyval
  DEFAULT_INITIAL_TRANSITION :: pyval
  DEFAULT_MAX_BRIGHTNESS :: pyval
  DEFAULT_MAX_COLOR_TEMP :: pyval
  DEFAULT_MIN_BRIGHTNESS :: pyval
  DEFAULT_MIN_COLOR_TEMP :: pyval
  DEFAULT_ONLY_ONCE :: pyval
  DEFAULT_SLEEP_BRIGHTNESS :: pyval
  DEFAULT_SLEEP_COLOR_TEMP :: pyval
  DEFAULT_SUNRISE_OFFSET :: pyval
  DEFAULT_SUNSET_OFFSET :: pyval
  DEFAULT_TRANSITION :: pyval

section \<open>\<^verbatim>\<open>CONFIG_SCHEMA\<close>\<close>

text \<open>
  The dictionary schema under the domain key, entry by entry as the source lists them
  (\<^verbatim>\<open>__init__.py\<close>, lines 134 to 181). It is built with the library's defaults: an
  unknown key is an error.
\<close>

definition DOMAIN_SCHEMA :: "host \<Rightarrow> defaults \<Rightarrow> schema_entry list" where
  "DOMAIN_SCHEMA h c =
    [(Required, CONF_NAME, Some (DEFAULT_NAME c), cv_string h),
     (Optional, CONF_LIGHTS, Some (DEFAULT_LIGHTS c), cv_entity_ids h),
     (Optional, CONF_DISABLE_BRIGHTNESS_ADJUST, Some (DEFAULT_DISABLE_BRIGHTNESS_ADJUST c),
        cv_boolean h),
     (Optional, CONF_DISABLE_ENTITY, None, cv_entity_id h),
     (Optional, CONF_DISABLE_STATE, None,
        vol_All [cv_ensure_list h, Schema_list (cv_string h)]),
     (Optional, CONF_INITIAL_TRANSITION, Some (DEFAULT_INITIAL_TRANSITION c),
        VALID_TRANSITION h),
     (Optional, CONF_INTERVAL, Some DEFAULT_INTERVAL, cv_time_period h),
     (Optional, CONF_MAX_BRIGHTNESS, Some (DEFAULT_MAX_BRIGHTNESS c),
        vol_All [vol_Coerce_int, vol_Range 1 100]),
     (Optional, CONF_MAX_COLOR_TEMP, Some (DEFAULT_MAX_COLOR_TEMP c),
        vol_All [vol_Coerce_int, vol_Range 1000 10000]),
     (Optional, CONF_MIN_BRIGHTNESS, Some (DEFAULT_MIN_BRIGHTNESS c),
        vol_All [vol_Coerce_int, vol_Range 1 100]),
     (Optional, CONF_MIN_COLOR_TEMP, Some (DEFAULT_MIN_COLOR_TEMP c),
        vol_All [vol_Coerce_int, vol_Range 1000 10000]),
     (Optional, CONF_ONLY_ONCE, Some (DEFAULT_ONLY_ONCE c), cv_boolean h),
     (Optional, CONF_SLEEP_BRIGHTNESS, Some (DEFAULT_SLEEP_BRIGHTNESS c),
        vol_All [vol_Coerce_int, vol_Range 1 100]),
     (Optional, CONF_SLEEP_COLOR_TEMP, Some (DEFAULT_SLEEP_COLOR_TEMP c),
        vol_All [vol_Coerce_int, vol_Range 1000 10000]),
     (Optional, CONF_SLEEP_ENTITY, None, cv_entity_id h),
     (Optional, CONF_SLEEP_STATE, None,
        vol_All [cv_ensure_list h, Schema_list (cv_string h)]),
     (Optional, CONF_SUNRISE_OFFSET, Some (DEFAULT_SUNRISE_OFFSET c), cv_time_period h),
     (Optional, CONF_SUNRISE_TIME, None, cv_time h),
     (Optional, CONF_SUNSET_OFFSET, Some (DEFAULT_SUNSET_OFFSET c), cv_time_period h),
     (Optional, CONF_SUNSET_TIME, None, cv_time h),
     (Optional, CONF_TRANSITION, Some (DEFAULT_TRANSITION c), VALID_TRANSITION h)]"

text \<open>
  The schema of the whole configuration document: the bare key \<^verbatim>\<open>DOMAIN\<close> with the
  dictionary schema above, and \<^verbatim>\<open>extra=vol.ALLOW_EXTRA\<close>.
\<close>

definition CONFIG_SCHEMA :: "host \<Rightarrow> defaults \<Rightarrow> validator" where
  "CONFIG_SCHEMA h c =
     Schema [(Bare, DOMAIN, None, Schema (DOMAIN_SCHEMA h c) PREVENT_EXTRA)] ALLOW_EXTRA"

section \<open>The capability flags\<close>

text \<open>
  \<^verbatim>\<open>_SUPPORT_OPTS\<close> (lines 121 to 126). The four flags are constants of the host
  (\<^verbatim>\<open>homeassistant.components.light\<close>), taken as a parameter.
\<close>

record light_flags =
  SUPPORT_BRIGHTNESS :: int
  SUPPORT_COLOR_TEMP :: int
  SUPPORT_COLOR :: int
  SUPPORT_TRANSITION :: int

definition SUPPORT_OPTS :: "light_flags \<Rightarrow> (string \<times> int) list" where
  "SUPPORT_OPTS l =
    [(''brightness'', SUPPORT_BRIGHTNESS l),
     (''color_temp'', SUPPORT_COLOR_TEMP l),
     (''color'', SUPPORT_COLOR l),
     (''transition'', SUPPORT_TRANSITION l)]"

section \<open>Setting the integration up\<close>

text \<open>
  \<^verbatim>\<open>hass.async_create_task\<close> schedules a coroutine on the host's event loop. The only
  state of the host that \<^verbatim>\<open>async_setup\<close> and \<^verbatim>\<open>async_setup_entry\<close> touch is the list of
  scheduled tasks; a task is the call it will make. \<open>'e\<close> is the host's type of config
  entries.
\<close>

datatype 'e task =
    Flow_async_init string "(string \<times> string) list" pyval
  | Forward_entry_setup 'e string

record 'e hass =
  tasks :: "'e task list"

definition async_create_task :: "'e hass \<Rightarrow> 'e task \<Rightarrow> 'e hass" where
  "async_create_task hass t = hass\<lparr>tasks := tasks hass @ [t]\<rparr>"

text \<open>\<^verbatim>\<open>SOURCE_IMPORT\<close> of \<^verbatim>\<open>homeassistant.config_entries\<close>.\<close>

definition SOURCE_IMPORT :: string where "SOURCE_IMPORT = ''import''"

text \<open>
  \<^verbatim>\<open>async_setup(hass, config)\<close> (lines 187 to 196); \<open>config\<close> is the dictionary of the
  configuration document. The result is the returned value and the host's state.
\<close>

definition async_setup :: "'e hass \<Rightarrow> (string \<times> pyval) list \<Rightarrow> bool \<times> 'e hass" where
  "async_setup hass config =
     (case map_of config DOMAIN of
        Some data \<Rightarrow>
          (True,
           async_create_task hass
             (Flow_async_init DOMAIN [(''source'', SOURCE_IMPORT)] data))
      | None \<Rightarrow> (True, hass))"

definition async_setup_entry :: "'e hass \<Rightarrow> 'e \<Rightarrow> bool \<times> 'e hass" where
  "async_setup_entry hass config_entry =
     (True, async_create_task hass (Forward_entry_setup config_entry ''switch''))"


section \<open>Documents and validated settings\<close>

text \<open>
  \<open>with_section doc d\<close> is the configuration document \<open>doc\<close> with the dictionary \<open>d\<close> as
  its section under the domain key; \<open>validated_setting r k\<close> reads \<^verbatim>\<open>config[DOMAIN][k]\<close> from
  the result \<open>r\<close> of \<^verbatim>\<open>CONFIG_SCHEMA\<close>.
\<close>

definition with_section :: "(string \<times> pyval) list \<Rightarrow> (string \<times> pyval) list \<Rightarrow> pyval" where
  "with_section doc d = PDict (AList.update DOMAIN (PDict d) doc)"

definition validated_setting :: "failure + pyval \<Rightarrow> string \<Rightarrow> pyval option" where
  "validated_setting r k =
     (case r of
        Inr (PDict out) \<Rightarrow>
          (case map_of out DOMAIN of Some (PDict sec) \<Rightarrow> map_of sec k | _ \<Rightarrow> None)
      | _ \<Rightarrow> None)"

text \<open>
  \<open>set_bounds min_b max_b min_ct max_ct d\<close> is the section \<open>d\<close> after
  \<^verbatim>\<open>d["min_brightness"] = min_b\<close>, \<^verbatim>\<open>d["max_brightness"] = max_b\<close>,
  \<^verbatim>\<open>d["min_color_temp"] = min_ct\<close> and \<^verbatim>\<open>d["max_color_temp"] = max_ct\<close>.
\<close>

definition set_bounds ::
  "int \<Rightarrow> int \<Rightarrow> int \<Rightarrow> int \<Rightarrow> (string \<times> pyval) list \<Rightarrow> (string \<times> pyval) list" where
  "set_bounds min_b max_b min_ct max_ct d =
     AList.update CONF_MAX_COLOR_TEMP (PInt max_ct)
       (AList.update CONF_MIN_COLOR_TEMP (PInt min_ct)
         (AList.update CONF_MAX_BRIGHTNESS (PInt max_b)
           (AList.update CONF_MIN_BRIGHTNESS (PInt min_b) d)))"

definition entry_ok :: "(string \<times> pyval) list \<Rightarrow> schema_entry \<Rightarrow> bool" where
  "entry_ok d e = (\<not> isl (validate_entry d e))"

definition entry_out :: "(string \<times> pyval) list \<Rightarrow> schema_entry \<Rightarrow> (string \<times> pyval) option" where
  "entry_out d e = (case validate_entry d e of Inr x \<Rightarrow> x | Inl err \<Rightarrow> None)"

section \<open>A reference host\<close>

text \<open>
  The host's validators as Home Assistant implements them, on the inputs where their
  result is simple to state; on the others the result is \<open>Unmodelled\<close>. The host's error
  messages are abbreviated. This host and the defaults \<open>defaults0\<close> serve the closed
  examples; the theorems quantify over every host and every assignment of the defaults.
\<close>

fun ha_string :: validator where
  "ha_string PNone = fail_invalid ''string value is None''"
| "ha_string (PList xs) = fail_invalid ''value should be a string''"
| "ha_string (PDict d) = fail_invalid ''value should be a string''"
| "ha_string (PStr s) = Inr (PStr s)"
| "ha_string (PInt n) = Inr (PStr (str_int n))"
| "ha_string (PBool b) = Inr (PStr (if b then ''True'' else ''False''))"
| "ha_string v = Inl Unmodelled"

fun ha_boolean :: validator where
  "ha_boolean (PBool b) = Inr (PBool b)"
| "ha_boolean (PInt n) = Inr (PBool (n \<noteq> 0))"
| "ha_boolean (PFloat x) = Inr (PBool (x \<noteq> Finite 0))"
| "ha_boolean (PStr s) = Inl Unmodelled"
| "ha_boolean v = fail_invalid ''invalid boolean value''"

fun ha_entity_id :: validator where
  "ha_entity_id PNone = fail_invalid ''string value is None''"
| "ha_entity_id (PList xs) = fail_invalid ''value should be a string''"
| "ha_entity_id (PDict d) = fail_invalid ''value should be a string''"
| "ha_entity_id v = Inl Unmodelled"

fun first_failure :: "(failure + 'a) list \<Rightarrow> failure + 'a list" where
  "first_failure [] = Inr []"
| "first_failure (r # rs) =
     (case r of Inl e \<Rightarrow> Inl e | Inr x \<Rightarrow> map_sum id ((#) x) (first_failure rs))"

fun ha_entity_ids :: validator where
  "ha_entity_ids PNone = fail_invalid ''Entity IDs can not be None''"
| "ha_entity_ids (PList xs) = map_sum id PList (first_failure (map ha_entity_id xs))"
| "ha_entity_ids v = Inl Unmodelled"

fun ha_ensure_list :: validator where
  "ha_ensure_list PNone = Inr (PList [])"
| "ha_ensure_list (PList xs) = Inr (PList xs)"
| "ha_ensure_list v = Inr (PList [v])"

fun ha_time_period :: validator where
  "ha_time_period (PTimedelta t) = Inr (PTimedelta t)"
| "ha_time_period (PInt n) =
     (if \<bar>n\<bar> \<le> 1000000000 then Inr (PTimedelta (n * 1000000)) else Inl Unmodelled)"
| "ha_time_period (PBool b) = Inr (PTimedelta (if b then 1000000 else 0))"
| "ha_time_period PNone = fail_invalid ''invalid time period''"
| "ha_time_period (PList xs) = fail_invalid ''invalid time period''"
| "ha_time_period (PTime h m s) = fail_invalid ''invalid time period''"
| "ha_time_period v = Inl Unmodelled"

fun ha_time :: validator where
  "ha_time (PTime h m s) = Inr (PTime h m s)"
| "ha_time PNone = fail_invalid ''Invalid time specified''"
| "ha_time v = Inl Unmodelled"

text \<open>
  \<^verbatim>\<open>VALID_TRANSITION = vol.All(vol.Coerce(float), vol.Clamp(min=0, max=6553))\<close>; an integer
  up to \<open>2 ^ 53\<close> in size converts to a float exactly.
\<close>

definition clamp_transition :: "pyfloat \<Rightarrow> pyval" where
  "clamp_transition x =
     (case x of
        Finite q \<Rightarrow> if q < 0 then PInt 0 else if 6553 < q then PInt 6553 else PFloat (Finite q)
      | PosInf \<Rightarrow> PInt 6553
      | NegInf \<Rightarrow> PInt 0
      | NaN \<Rightarrow> PFloat NaN)"

fun ha_valid_transition :: validator where
  "ha_valid_transition (PInt n) =
     (if \<bar>n\<bar> \<le> 2 ^ 53 then Inr (clamp_transition (Finite (of_int n))) else Inl Unmodelled)"
| "ha_valid_transition (PBool b) = Inr (clamp_transition (Finite (if b then 1 else 0)))"
| "ha_valid_transition (PFloat x) = Inr (clamp_transition x)"
| "ha_valid_transition (PStr s) = Inl Unmodelled"
| "ha_valid_transition v = fail_invalid ''expected float''"

definition ha :: host where
  "ha = \<lparr>cv_string = ha_string, cv_entity_ids = ha_entity_ids, cv_boolean = ha_boolean,
          cv_entity_id = ha_entity_id, cv_ensure_list = ha_ensure_list,
          cv_time_period = ha_time_period, cv_time = ha_time,
          VALID_TRANSITION = ha_valid_transition\<rparr>"

definition defaults0 :: defaults where
  "defaults0 =
     \<lparr>DEFAULT_NAME = PStr ''default'', DEFAULT_LIGHTS = PList [],
      DEFAULT_DISABLE_BRIGHTNESS_ADJUST = PBool False, DEFAULT_INITIAL_TRANSITION = PInt 1,
      DEFAULT_MAX_BRIGHTNESS = PInt 100, DEFAULT_MAX_COLOR_TEMP = PInt 5500,
      DEFAULT_MIN_BRIGHTNESS = PInt 1, DEFAULT_MIN_COLOR_TEMP = PInt 2500,
      DEFAULT_ONLY_ONCE = PBool False, DEFAULT_SLEEP_BRIGHTNESS = PInt 1,
      DEFAULT_SLEEP_COLOR_TEMP = PInt 1000, DEFAULT_SUNRISE_OFFSET = PInt 0,
      DEFAULT_SUNSET_OFFSET = PInt 0, DEFAULT_TRANSITION = PInt 60\<rparr>"


section \<open>The photometric curve\<close>

text \<open>
  Modelled from the spec: the PhotometricCurve (spec, section 4.2) is computed in the
  integration's switch platform, which is not under src/. The definitions of this section
  follow the spec's words; what the spec leaves open is a parameter:
  \<^item> the values of colour temperature and brightness at the sunrise and sunset knots
    (\<open>knots\<close>);
  \<^item> how an interpolated value becomes an integer (\<open>to_int\<close>).
  Timestamps are seconds, as rational numbers.
\<close>

text \<open>
  Modelled from the spec: SunAnchors (section 3), the four anchor timestamps of a day. The
  cycle is 24 hours long (section 4.2), so the next solar midnight is 86400 seconds after
  \<open>solar_midnight\<close>. Sunrise and sunset are shifted by the configured offsets, which may
  be any durations: nothing is assumed about where they lie among the other anchors.
\<close>

record SunAnchors =
  solar_midnight :: rat
  sunrise :: rat
  solar_noon :: rat
  sunset :: rat

definition next_midnight :: "SunAnchors \<Rightarrow> rat" where
  "next_midnight a = solar_midnight a + 86400"

text \<open>
  Modelled from the spec: of SwitchConfig (section 3), the four bounds that the curve
  uses. The spec's invariants of a valid configuration are
  \<open>min_brightness \<le> max_brightness\<close> and \<open>min_color_temp \<le> max_color_temp\<close>.
\<close>

record SwitchConfig =
  min_brightness :: int
  max_brightness :: int
  min_color_temp :: int
  max_color_temp :: int

text \<open>
  Modelled from the spec: LightingSetting (section 3), without the transition time, which
  the scheduler chooses.
\<close>

record LightingSetting =
  color_temperature_kelvin :: int
  brightness_percent :: int

text \<open>
  Modelled from the spec: the values at the sunrise and sunset knots, which the spec does
  not give.
\<close>

record knots =
  color_temp_at_sunrise :: rat
  color_temp_at_sunset :: rat
  brightness_at_sunrise :: rat
  brightness_at_sunset :: rat

text \<open>Modelled from the spec: "clamped to [min, max]".\<close>

definition clamp :: "int \<Rightarrow> int \<Rightarrow> int \<Rightarrow> int" where
  "clamp low high value = max low (min high value)"

text \<open>
  Modelled from the spec: the elapsed fraction of the interval from \<open>t0\<close> to \<open>t1\<close> at time
  \<open>t\<close>. An interval of zero duration does not divide: the fraction is 0 before it and 1
  from it on ("clamp to the nearer anchor's value"). A time outside the interval has the
  fraction of the nearer end.
\<close>

definition elapsed_fraction :: "rat \<Rightarrow> rat \<Rightarrow> rat \<Rightarrow> rat" where
  "elapsed_fraction t t0 t1 =
     (if t1 \<le> t0 then (if t < t0 then 0 else 1)
      else max 0 (min 1 ((t - t0) / (t1 - t0))))"

text \<open>
  Modelled from the spec: linear interpolation between two knots (time, value) "in
  elapsed-fraction-of-interval terms".
\<close>

definition interpolate :: "rat \<Rightarrow> rat \<times> rat \<Rightarrow> rat \<times> rat \<Rightarrow> rat" where
  "interpolate t p q = snd p + (snd q - snd p) * elapsed_fraction t (fst p) (fst q)"

text \<open>
  Modelled from the spec: the four-point piecewise-linear curve over the cycle. The spec
  interpolates "between midnight, sunrise, noon and between noon, sunset, midnight";
  the offsets shift "where the ramp begins/ends, not the midnight/noon anchors". So solar
  noon separates the two halves of the cycle, and within each half the shifted sunrise
  (sunset) separates its two ramps, wherever the offset has put it. A time that falls on
  an anchor belongs to the interval that starts there; when that interval has a duration,
  its fraction is then 0 and the value is the anchor's.
\<close>

definition curve :: "rat \<Rightarrow> SunAnchors \<Rightarrow> rat \<Rightarrow> rat \<Rightarrow> rat \<Rightarrow> rat \<Rightarrow> rat" where
  "curve t a at_midnight at_sunrise at_noon at_sunset =
     (if t < solar_noon a then
        (if t < sunrise a then
           interpolate t (solar_midnight a, at_midnight) (sunrise a, at_sunrise)
         else
           interpolate t (sunrise a, at_sunrise) (solar_noon a, at_noon))
      else
        (if t < sunset a then
           interpolate t (solar_noon a, at_noon) (sunset a, at_sunset)
         else
           interpolate t (sunset a, at_sunset) (next_midnight a, at_midnight)))"

text \<open>
  Modelled from the spec: \<^verbatim>\<open>compute(now, anchors, config)\<close>. Colour temperature is
  \<open>min_color_temp\<close> at solar midnight and \<open>max_color_temp\<close> at solar noon, brightness is
  \<open>min_brightness\<close> at solar midnight and \<open>max_brightness\<close> at solar noon; the output is
  clamped to the configured bounds.
\<close>

definition compute ::
  "(rat \<Rightarrow> int) \<Rightarrow> knots \<Rightarrow> rat \<Rightarrow> SunAnchors \<Rightarrow> SwitchConfig \<Rightarrow> LightingSetting" where
  "compute to_int kn now a cfg =
     \<lparr>color_temperature_kelvin =
        clamp (min_color_temp cfg) (max_color_temp cfg)
          (to_int (curve now a (of_int (min_color_temp cfg)) (color_temp_at_sunrise kn)
                     (of_int (max_color_temp cfg)) (color_temp_at_sunset kn))),
      brightness_percent =
        clamp (min_brightness cfg) (max_brightness cfg)
          (to_int (curve now a (of_int (min_brightness cfg)) (brightness_at_sunrise kn)
                     (of_int (max_brightness cfg)) (brightness_at_sunset kn)))\<rparr>"

text \<open>
  An example day, the same day with sunrise shifted to 14:00 (after solar noon), example
  knot values and the bounds of the spec's scenario (section 8).
\<close>

definition anchors0 :: SunAnchors where
  "anchors0 = \<lparr>solar_midnight = 0, sunrise = 21600, solar_noon = 43200, sunset = 64800\<rparr>"


definition knots0 :: knots where
  "knots0 = \<lparr>color_temp_at_sunrise = 4100, color_temp_at_sunset = 4100,
             brightness_at_sunrise = 50, brightness_at_sunset = 50\<rparr>"

definition config0 :: SwitchConfig where
  "config0 = \<lparr>min_brightness = 1, max_brightness = 100,
              min_color_temp = 2700, max_color_temp = 5500\<rparr>"

section \<open>Facts about the validation library\<close>

lemma isl_collect: "isl (collect rs) \<longleftrightarrow> (\<exists>r\<in>set rs. isl r)"
  by (induction rs) (auto split: sum.splits failure.splits)

lemma isl_callable: "isl (callable f v) \<longleftrightarrow> isl (f v)"
  by (auto simp: callable_def fail_invalid_def split: sum.splits failure.splits pyexc.splits)

lemma callable_Inr: "callable f v = Inr w \<longleftrightarrow> f v = Inr w"
  by (auto simp: callable_def fail_invalid_def split: sum.splits failure.splits pyexc.splits)

lemma isl_at_path: "isl (at_path p r) \<longleftrightarrow> isl r"
  by (auto simp: at_path_def split: sum.splits failure.splits)

lemma at_path_Inr: "at_path p r = Inr w \<longleftrightarrow> r = Inr w"
  by (auto simp: at_path_def split: sum.splits failure.splits)

lemma isl_map_sum: "isl (map_sum f g r) \<longleftrightarrow> isl r"
  by (cases r) auto

lemma entry_ok_iff:
  "entry_ok d (m, k, dflt, f) \<longleftrightarrow>
     (case entry_value d (m, k, dflt, f) of None \<Rightarrow> m \<noteq> Required | Some v \<Rightarrow> \<not> isl (f v))"
  by (auto simp: entry_ok_def isl_map_sum isl_at_path isl_callable split: option.splits)

lemma validate_entry_Inr:
  "entry_value d (m, k, dflt, f) = Some v \<Longrightarrow> f v = Inr w \<Longrightarrow>
   validate_entry d (m, k, dflt, f) = Inr (Some (k, w))"
  by (simp add: callable_def at_path_def)

lemma isl_validate_extra: "isl (validate_extra ex kv) \<longleftrightarrow> ex = PREVENT_EXTRA"
  by (cases ex; cases kv) auto

lemma mapping_ok_iff:
  "\<not> isl (validate_mapping sch ex d) \<longleftrightarrow>
     (\<forall>e\<in>set sch. entry_ok d e) \<and> (ex = PREVENT_EXTRA \<longrightarrow> extra_keys sch d = [])"
proof -
  have "(\<exists>kv\<in>set (extra_keys sch d). isl (validate_extra ex kv)) \<longleftrightarrow>
        (ex = PREVENT_EXTRA \<and> extra_keys sch d \<noteq> [])"
    by (cases "extra_keys sch d") (auto simp: isl_validate_extra)
  then show ?thesis
    by (auto simp: validate_mapping_def isl_collect entry_ok_def)
qed

lemma extra_keys_update:
  "k \<in> set (map entry_key sch) \<Longrightarrow> extra_keys sch (AList.update k v d) = extra_keys sch d"
  by (induction d) (auto simp: extra_keys_def)

lemma entry_value_update:
  "entry_value (AList.update k v d) (m, k', dflt, f) =
     (if k' = k then Some v else entry_value d (m, k', dflt, f))"
  by (simp add: update_conv')

lemma collect_out:
  "collect rs = Inr xs \<Longrightarrow>
   xs = List.map_filter (\<lambda>r. case r of Inr x \<Rightarrow> x | Inl e \<Rightarrow> None) rs"
  by (induction rs arbitrary: xs) (auto split: sum.splits failure.splits option.splits)

lemma map_filter_append:
  "List.map_filter f (xs @ ys) = List.map_filter f xs @ List.map_filter f ys"
  by (simp add: List.map_filter_def)

lemma map_filter_map: "List.map_filter f (map g xs) = List.map_filter (\<lambda>x. f (g x)) xs"
  by (induction xs) (simp_all split: option.splits)

lemma entry_out_key: "entry_out d e = Some (k, w) \<Longrightarrow> k = entry_key e"
  by (cases e)
    (auto simp: entry_out_def entry_key_def at_path_def
          split: sum.splits option.splits if_splits failure.splits)

lemma map_of_entries:
  "distinct (map entry_key sch) \<Longrightarrow> e \<in> set sch \<Longrightarrow> entry_out d e = Some (k, w) \<Longrightarrow>
   map_of (List.map_filter (entry_out d) sch) k = Some w"
proof (induction sch)
  case Nil
  then show ?case by simp
next
  case (Cons a sch)
  show ?case
  proof (cases "a = e")
    case True
    with Cons.prems show ?thesis by simp
  next
    case False
    with Cons.prems have e: "e \<in> set sch" and ne: "entry_key a \<noteq> entry_key e"
      by auto
    from Cons.prems(3) have k: "k = entry_key e" by (rule entry_out_key)
    have ih: "map_of (List.map_filter (entry_out d) sch) k = Some w"
      using Cons.IH Cons.prems e by simp
    show ?thesis
    proof (cases "entry_out d a")
      case None
      then show ?thesis using ih by simp
    next
      case (Some kw)
      obtain k' w' where kw: "kw = (k', w')" by (cases kw)
      with Some have "k' = entry_key a" using entry_out_key by blast
      with ne k have "k' \<noteq> k" by simp
      with Some kw ih show ?thesis by simp
    qed
  qed
qed

lemma mapping_out:
  assumes "validate_mapping sch ex d = Inr out" and "distinct (map entry_key sch)"
      and "e \<in> set sch" and "validate_entry d e = Inr (Some (k, w))"
  shows "map_of out k = Some w"
proof -
  have "out = List.map_filter (\<lambda>r. case r of Inr x \<Rightarrow> x | Inl e \<Rightarrow> None)
          (map (validate_entry d) sch @ map (validate_extra ex) (extra_keys sch d))"
    using assms(1) unfolding validate_mapping_def by (rule collect_out)
  then have "out = List.map_filter (entry_out d) sch @
      List.map_filter (\<lambda>r. case r of Inr x \<Rightarrow> x | Inl e \<Rightarrow> None)
        (map (validate_extra ex) (extra_keys sch d))"
    by (simp add: map_filter_append map_filter_map entry_out_def [abs_def])
  moreover have "map_of (List.map_filter (entry_out d) sch) k = Some w"
    using assms by (intro map_of_entries) (auto simp: entry_out_def)
  ultimately show ?thesis by (simp add: map_add_Some_iff)
qed

lemma same_key_same_entry:
  "distinct (map entry_key sch) \<Longrightarrow> e \<in> set sch \<Longrightarrow> e' \<in> set sch \<Longrightarrow>
   entry_key e' = entry_key e \<Longrightarrow> e' = e"
  by (meson distinct_map inj_onD)

lemma section_update:
  assumes e: "(m, k, dflt, f) \<in> set sch" and dist: "distinct (map entry_key sch)"
      and ok: "\<not> isl (validate_mapping sch ex d)"
  shows "\<not> isl (validate_mapping sch ex (AList.update k v d)) \<longleftrightarrow> \<not> isl (f v)"
proof -
  from e have key: "k \<in> set (map entry_key sch)"
    by (force simp: entry_key_def)
  have this_entry: "entry_ok (AList.update k v d) (m, k, dflt, f) \<longleftrightarrow> \<not> isl (f v)"
    by (simp add: entry_ok_iff entry_value_update del: entry_value.simps)
  have others: "entry_ok (AList.update k v d) e' \<longleftrightarrow> entry_ok d e'"
    if "e' \<in> set sch" and "e' \<noteq> (m, k, dflt, f)" for e'
  proof -
    obtain m' k' dflt' f' where e': "e' = (m', k', dflt', f')" by (cases e') auto
    have "k' \<noteq> k"
      using same_key_same_entry [OF dist e that(1)] that(2) e' by (auto simp: entry_key_def)
    then show ?thesis
      unfolding e' by (simp add: entry_ok_iff entry_value_update del: entry_value.simps)
  qed
  from ok have all: "\<forall>e'\<in>set sch. entry_ok d e'"
    and ex: "ex = PREVENT_EXTRA \<longrightarrow> extra_keys sch d = []"
    by (simp_all add: mapping_ok_iff)
  have "(\<forall>e'\<in>set sch. entry_ok (AList.update k v d) e') \<longleftrightarrow> \<not> isl (f v)"
    using e all this_entry others by metis
  then show ?thesis
    using ex by (simp add: mapping_ok_iff extra_keys_update [OF key])
qed

lemma section_update_out:
  assumes e: "(m, k, dflt, f) \<in> set sch" and dist: "distinct (map entry_key sch)"
      and out: "validate_mapping sch ex (AList.update k v d) = Inr out" and f: "f v = Inr w"
  shows "map_of out k = Some w"
proof -
  have "validate_entry (AList.update k v d) (m, k, dflt, f) = Inr (Some (k, w))"
    using f by (intro validate_entry_Inr [where v = v]) (simp_all add: update_conv')
  then show ?thesis
    using mapping_out [OF out dist e] by simp
qed

section \<open>Facts about \<^verbatim>\<open>CONFIG_SCHEMA\<close>\<close>

declare vol_All.simps [simp del]

lemmas conf_keys =
  DOMAIN_def CONF_NAME_def CONF_LIGHTS_def CONF_DISABLE_BRIGHTNESS_ADJUST_def
  CONF_DISABLE_ENTITY_def CONF_DISABLE_STATE_def CONF_INITIAL_TRANSITION_def
  CONF_INTERVAL_def CONF_MAX_BRIGHTNESS_def CONF_MAX_COLOR_TEMP_def
  CONF_MIN_BRIGHTNESS_def CONF_MIN_COLOR_TEMP_def CONF_ONLY_ONCE_def
  CONF_SLEEP_BRIGHTNESS_def CONF_SLEEP_COLOR_TEMP_def CONF_SLEEP_ENTITY_def
  CONF_SLEEP_STATE_def CONF_SUNRISE_OFFSET_def CONF_SUNRISE_TIME_def
  CONF_SUNSET_OFFSET_def CONF_SUNSET_TIME_def CONF_TRANSITION_def

lemma distinct_domain_keys: "distinct (map entry_key (DOMAIN_SCHEMA h c))"
  by (simp add: DOMAIN_SCHEMA_def entry_key_def conf_keys)

lemma config_schema_accepts:
  "accepts (CONFIG_SCHEMA h c) (with_section doc d) \<longleftrightarrow>
   \<not> isl (validate_mapping (DOMAIN_SCHEMA h c) PREVENT_EXTRA d)"
  by (simp add: accepts_def CONFIG_SCHEMA_def with_section_def Schema_def isl_map_sum
      mapping_ok_iff entry_ok_iff update_conv')

lemma config_schema_setting:
  assumes "validate_mapping (DOMAIN_SCHEMA h c) PREVENT_EXTRA d = Inr out"
  shows "validated_setting (CONFIG_SCHEMA h c (with_section doc d)) k = map_of out k"
proof -
  let ?E = "(Bare, DOMAIN, None, Schema (DOMAIN_SCHEMA h c) PREVENT_EXTRA)"
  let ?doc = "AList.update DOMAIN (PDict d) doc"
  have inner: "Schema (DOMAIN_SCHEMA h c) PREVENT_EXTRA (PDict d) = Inr (PDict out)"
    using assms by (simp add: Schema_def)
  have entry: "validate_entry ?doc ?E = Inr (Some (DOMAIN, PDict out))"
    using inner by (intro validate_entry_Inr [where v = "PDict d"]) (simp_all add: update_conv')
  then have "\<not> isl (validate_mapping [?E] ALLOW_EXTRA ?doc)"
    by (simp add: mapping_ok_iff entry_ok_def)
  then obtain out' where out': "validate_mapping [?E] ALLOW_EXTRA ?doc = Inr out'"
    by (cases "validate_mapping [?E] ALLOW_EXTRA ?doc") auto
  have "map_of out' DOMAIN = Some (PDict out)"
    using mapping_out [OF out' _ _ entry] by simp
  then show ?thesis
    using out' by (simp add: validated_setting_def CONFIG_SCHEMA_def with_section_def Schema_def)
qed

lemma numeric_Inr:
  "vol_All [vol_Coerce_int, vol_Range lo hi] v = Inr w \<longleftrightarrow>
   (\<exists>n. py_int v = Inr n \<and> lo \<le> n \<and> n \<le> hi \<and> w = PInt n)"
  by (auto simp: vol_All.simps callable_def vol_Coerce_int_def vol_Range_def fail_invalid_def
      split: sum.splits pyexc.splits option.splits bool.splits failure.splits)

lemma numeric_ok:
  "\<not> isl (vol_All [vol_Coerce_int, vol_Range lo hi] v) \<longleftrightarrow>
   (\<exists>n. py_int v = Inr n \<and> lo \<le> n \<and> n \<le> hi)"
proof -
  have "\<not> isl (vol_All [vol_Coerce_int, vol_Range lo hi] v) \<longleftrightarrow>
        (\<exists>w. vol_All [vol_Coerce_int, vol_Range lo hi] v = Inr w)"
    by (cases "vol_All [vol_Coerce_int, vol_Range lo hi] v") auto
  then show ?thesis by (auto simp: numeric_Inr)
qed

lemma numeric_key_accepts:
  assumes e: "(m, k, dflt, vol_All [vol_Coerce_int, vol_Range lo hi]) \<in> set (DOMAIN_SCHEMA h c)"
      and ok: "accepts (CONFIG_SCHEMA h c) (with_section doc d)"
  shows "accepts (CONFIG_SCHEMA h c) (with_section doc (AList.update k v d)) \<longleftrightarrow>
         (\<exists>n. py_int v = Inr n \<and> lo \<le> n \<and> n \<le> hi)"
  using section_update [OF e distinct_domain_keys, of PREVENT_EXTRA d v] ok
  by (simp add: config_schema_accepts numeric_ok)

lemma numeric_key_setting:
  assumes e: "(m, k, dflt, vol_All [vol_Coerce_int, vol_Range lo hi]) \<in> set (DOMAIN_SCHEMA h c)"
      and ok: "accepts (CONFIG_SCHEMA h c) (with_section doc (AList.update k v d))"
      and n: "py_int v = Inr n"
  shows "validated_setting (CONFIG_SCHEMA h c (with_section doc (AList.update k v d))) k
         = Some (PInt n)"
proof -
  from ok obtain out where
    out: "validate_mapping (DOMAIN_SCHEMA h c) PREVENT_EXTRA (AList.update k v d) = Inr out"
    by (cases "validate_mapping (DOMAIN_SCHEMA h c) PREVENT_EXTRA (AList.update k v d)")
       (auto simp: config_schema_accepts)
  then have "entry_ok (AList.update k v d) (m, k, dflt, vol_All [vol_Coerce_int, vol_Range lo hi])"
    using e mapping_ok_iff [of "DOMAIN_SCHEMA h c" PREVENT_EXTRA "AList.update k v d"] by auto
  then have "\<exists>n. py_int v = Inr n \<and> lo \<le> n \<and> n \<le> hi"
    by (simp add: entry_ok_iff update_conv' numeric_ok)
  with n have "vol_All [vol_Coerce_int, vol_Range lo hi] v = Inr (PInt n)"
    by (simp add: numeric_Inr)
  from section_update_out [OF e distinct_domain_keys out this]
  show ?thesis by (simp add: config_schema_setting [OF out])
qed

lemma brightness_entries:
  "(Optional, CONF_MAX_BRIGHTNESS, Some (DEFAULT_MAX_BRIGHTNESS c),
      vol_All [vol_Coerce_int, vol_Range 1 100]) \<in> set (DOMAIN_SCHEMA h c)"
  "(Optional, CONF_MIN_BRIGHTNESS, Some (DEFAULT_MIN_BRIGHTNESS c),
      vol_All [vol_Coerce_int, vol_Range 1 100]) \<in> set (DOMAIN_SCHEMA h c)"
  "(Optional, CONF_SLEEP_BRIGHTNESS, Some (DEFAULT_SLEEP_BRIGHTNESS c),
      vol_All [vol_Coerce_int, vol_Range 1 100]) \<in> set (DOMAIN_SCHEMA h c)"
  by (simp_all add: DOMAIN_SCHEMA_def)

lemma color_temp_entries:
  "(Optional, CONF_MAX_COLOR_TEMP, Some (DEFAULT_MAX_COLOR_TEMP c),
      vol_All [vol_Coerce_int, vol_Range 1000 10000]) \<in> set (DOMAIN_SCHEMA h c)"
  "(Optional, CONF_MIN_COLOR_TEMP, Some (DEFAULT_MIN_COLOR_TEMP c),
      vol_All [vol_Coerce_int, vol_Range 1000 10000]) \<in> set (DOMAIN_SCHEMA h c)"
  "(Optional, CONF_SLEEP_COLOR_TEMP, Some (DEFAULT_SLEEP_COLOR_TEMP c),
      vol_All [vol_Coerce_int, vol_Range 1000 10000]) \<in> set (DOMAIN_SCHEMA h c)"
  by (simp_all add: DOMAIN_SCHEMA_def)

lemma ha_defaults_accepted: "accepts (CONFIG_SCHEMA ha defaults0) (with_section doc [])"
  by (simp add: config_schema_accepts mapping_ok_iff extra_keys_def DOMAIN_SCHEMA_def
      entry_ok_iff ha_def defaults0_def DEFAULT_INTERVAL_def numeric_ok
      clamp_transition_def)


subsection \<open>Decimal strings\<close>

lemma foldl_digits: "foldl (\<lambda>a c. 10 * a + digit_of c) a s = a * 10 ^ length s + decimal_value s"
  by (induction s arbitrary: a) (simp_all add: algebra_simps)

lemma digits_value_decimal: "digits_value s = decimal_value s"
  by (simp add: digits_value_def foldl_digits)

lemma digit_not_special:
  assumes "is_digit c"
  shows "\<not> is_space c" and "c \<noteq> CHR ''+''" and "c \<noteq> CHR ''-''" and "c \<noteq> CHR ''_''"
  using assms by (auto simp: is_digit_def is_space_def)

lemma double_underscore_has: "double_underscore s \<Longrightarrow> CHR ''_'' \<in> set s"
  by (induction s rule: double_underscore.induct) auto

lemma py_int_str_of_digits:
  assumes ne: "s \<noteq> []" and dig: "list_all is_digit s"
  shows "py_int_str s =
         (if max_str_digits < length s then None else Some (int (decimal_value s)))"
proof -
  from ne obtain c r where s: "s = c # r" by (cases s) auto
  with dig have c: "is_digit c" by simp
  have all: "\<forall>x\<in>set s. is_digit x" using dig by (simp add: list_all_iff)
  have no_us: "CHR ''_'' \<notin> set s" using all digit_not_special(4) by blast
  have 1: "dropWhile is_space s = s"
    using c digit_not_special(1) by (simp add: s)
  have 2: "split_sign s = (False, s)"
    using c digit_not_special(2,3) by (simp add: s split_sign_def)
  have 3: "takeWhile digit_or_underscore s = s"
    using all by (simp add: takeWhile_eq_all_conv digit_or_underscore_def)
  have 4: "dropWhile digit_or_underscore s = []"
    using all by (simp add: digit_or_underscore_def)
  have 5: "hd s \<noteq> CHR ''_''" "last s \<noteq> CHR ''_''"
    using no_us ne by (metis hd_in_set, metis last_in_set)
  have 6: "\<not> double_underscore s"
    using no_us double_underscore_has by blast
  have 7: "filter is_digit s = s"
    using all by simp
  show ?thesis
    using ne 5 6 by (simp add: py_int_str_def 1 2 3 4 7 digits_value_decimal)
qed

lemma py_int_str_digits:
  assumes "s \<noteq> []" and "list_all is_digit s" and "length s \<le> max_str_digits"
  shows "py_int_str s = Some (int (decimal_value s))"
  using assms by (simp add: py_int_str_of_digits)

lemma py_int_str_too_long:
  assumes "list_all is_digit s" and "max_str_digits < length s"
  shows "py_int (PStr s) = Inl ValueError"
proof -
  from assms(2) have "s \<noteq> []" by auto
  then show ?thesis using assms by (simp add: py_int_str_of_digits)
qed


subsection \<open>Whole documents\<close>

lemma with_section_Nil: "with_section [] d = PDict [(DOMAIN, PDict d)]"
  by (simp add: with_section_def)

lemma accepted_entry_value:
  assumes ok: "accepts (CONFIG_SCHEMA h c) (with_section doc d)"
      and e: "(m, k, dflt, f) \<in> set (DOMAIN_SCHEMA h c)" and v: "map_of d k = Some v"
  shows "\<not> isl (f v)"
proof -
  have "entry_ok d (m, k, dflt, f)"
    using ok e by (auto simp: config_schema_accepts mapping_ok_iff)
  then show ?thesis using v by (simp add: entry_ok_iff)
qed

lemma collect_allow_extra: "collect (map (validate_extra ALLOW_EXTRA) xs) = Inr xs"
  by (induction xs) auto

lemma map_of_extra_keys:
  "k \<notin> set (map entry_key sch) \<Longrightarrow> map_of (extra_keys sch d) k = map_of d k"
  by (induction d) (auto simp: extra_keys_def)

lemma config_schema_no_domain:
  assumes "map_of doc DOMAIN = None"
  shows "CONFIG_SCHEMA h c (PDict doc) = Inr (PDict doc)"
proof -
  have "extra_keys [(Bare, DOMAIN, None, Schema (DOMAIN_SCHEMA h c) PREVENT_EXTRA)] doc = doc"
    using assms by (force simp: extra_keys_def entry_key_def map_of_eq_None_iff filter_id_conv)
  then show ?thesis
    using assms
    by (simp add: CONFIG_SCHEMA_def Schema_def validate_mapping_def collect_allow_extra)
qed

lemma config_schema_domain:
  assumes "map_of doc DOMAIN = Some sec"
  shows "accepts (CONFIG_SCHEMA h c) (PDict doc) \<longleftrightarrow>
         accepts (Schema (DOMAIN_SCHEMA h c) PREVENT_EXTRA) sec"
  using assms
  by (simp add: accepts_def CONFIG_SCHEMA_def Schema_def [of "[x]" for x] isl_map_sum
      mapping_ok_iff entry_ok_iff)

lemma mapping_out_eq:
  assumes "validate_mapping sch ex d = Inr out"
  shows "out = List.map_filter (entry_out d) sch @
      List.map_filter (\<lambda>kv. case validate_extra ex kv of Inr x \<Rightarrow> x | Inl e \<Rightarrow> None)
        (extra_keys sch d)"
proof -
  have "out = List.map_filter (\<lambda>r. case r of Inr x \<Rightarrow> x | Inl e \<Rightarrow> None)
          (map (validate_entry d) sch @ map (validate_extra ex) (extra_keys sch d))"
    using assms unfolding validate_mapping_def by (rule collect_out)
  then show ?thesis
    by (simp add: map_filter_append map_filter_map entry_out_def [abs_def])
qed

lemma map_filter_allow_extra:
  "List.map_filter (\<lambda>kv. case validate_extra ALLOW_EXTRA kv of Inr x \<Rightarrow> x | Inl e \<Rightarrow> None) xs
   = xs"
  by (induction xs) auto

lemma config_schema_extra_kept:
  assumes out: "CONFIG_SCHEMA h c (PDict doc) = Inr (PDict out)" and k: "k \<noteq> DOMAIN"
  shows "map_of out k = map_of doc k"
proof -
  let ?E = "(Bare, DOMAIN, None, Schema (DOMAIN_SCHEMA h c) PREVENT_EXTRA)"
  from out have m: "validate_mapping [?E] ALLOW_EXTRA doc = Inr out"
    by (cases "validate_mapping [?E] ALLOW_EXTRA doc")
       (auto simp: CONFIG_SCHEMA_def Schema_def [of "[x]" for x])
  have "out = List.map_filter (entry_out doc) [?E] @ extra_keys [?E] doc"
    using mapping_out_eq [OF m] by (simp only: map_filter_allow_extra)
  moreover have "map_of (List.map_filter (entry_out doc) [?E]) k = None"
  proof (cases "entry_out doc ?E")
    case None
    then show ?thesis by simp
  next
    case (Some kw)
    then have "fst kw = DOMAIN"
      using entry_out_key [of doc ?E "fst kw" "snd kw"] by (simp add: entry_key_def)
    with Some k show ?thesis by (cases kw) auto
  qed
  moreover have "map_of (extra_keys [?E] doc) k = map_of doc k"
    using k by (intro map_of_extra_keys) (simp add: entry_key_def)
  ultimately show ?thesis by (simp add: map_add_def)
qed

lemma entry_ok_update_other:
  "entry_key e' \<noteq> k \<Longrightarrow> entry_ok (AList.update k v d) e' \<longleftrightarrow> entry_ok d e'"
  by (cases e') (simp add: entry_ok_iff entry_value_update entry_key_def del: entry_value.simps)

lemma setting_of_accepted:
  assumes ok: "accepts (CONFIG_SCHEMA h c) (with_section doc d)"
      and e: "(m, k, dflt, f) \<in> set (DOMAIN_SCHEMA h c)"
      and v: "entry_value d (m, k, dflt, f) = Some v" and w: "f v = Inr w"
  shows "validated_setting (CONFIG_SCHEMA h c (with_section doc d)) k = Some w"
proof -
  from ok obtain out where
    out: "validate_mapping (DOMAIN_SCHEMA h c) PREVENT_EXTRA d = Inr out"
    by (cases "validate_mapping (DOMAIN_SCHEMA h c) PREVENT_EXTRA d")
       (auto simp: config_schema_accepts)
  have "validate_entry d (m, k, dflt, f) = Inr (Some (k, w))"
    using v w by (rule validate_entry_Inr)
  from mapping_out [OF out distinct_domain_keys e this]
  show ?thesis by (simp add: config_schema_setting [OF out])
qed

lemma interval_entry:
  "(Optional, CONF_INTERVAL, Some DEFAULT_INTERVAL, cv_time_period h) \<in> set (DOMAIN_SCHEMA h c)"
  by (simp add: DOMAIN_SCHEMA_def)

lemma omitted_default_accepted:
  assumes e: "(m, k, Some dv, f) \<in> set sch" and dist: "distinct (map entry_key sch)"
      and omitted: "map_of d k = None" and dflt: "\<not> isl (f dv)"
      and rest: "\<not> isl (validate_mapping sch ex (AList.update k v d))"
  shows "\<not> isl (validate_mapping sch ex d)"
proof -
  from e have key: "k \<in> set (map entry_key sch)"
    by (force simp: entry_key_def)
  from rest have all: "\<forall>e'\<in>set sch. entry_ok (AList.update k v d) e'"
    and ex: "ex = PREVENT_EXTRA \<longrightarrow> extra_keys sch d = []"
    by (simp_all add: mapping_ok_iff extra_keys_update [OF key])
  have "entry_ok d e'" if e': "e' \<in> set sch" for e'
  proof (cases "e' = (m, k, Some dv, f)")
    case True
    then show ?thesis using omitted dflt by (simp add: entry_ok_iff)
  next
    case False
    then have "entry_key e' \<noteq> k"
      using same_key_same_entry [OF dist e e'] by (auto simp: entry_key_def)
    then show ?thesis using all e' entry_ok_update_other by blast
  qed
  with ex show ?thesis by (simp add: mapping_ok_iff)
qed

lemma bounds_entries:
  "(Optional, CONF_MAX_BRIGHTNESS, Some (DEFAULT_MAX_BRIGHTNESS c),
      vol_All [vol_Coerce_int, vol_Range 1 100]) \<in> set (DOMAIN_SCHEMA h c)"
  "(Optional, CONF_MIN_BRIGHTNESS, Some (DEFAULT_MIN_BRIGHTNESS c),
      vol_All [vol_Coerce_int, vol_Range 1 100]) \<in> set (DOMAIN_SCHEMA h c)"
  "(Optional, CONF_MAX_COLOR_TEMP, Some (DEFAULT_MAX_COLOR_TEMP c),
      vol_All [vol_Coerce_int, vol_Range 1000 10000]) \<in> set (DOMAIN_SCHEMA h c)"
  "(Optional, CONF_MIN_COLOR_TEMP, Some (DEFAULT_MIN_COLOR_TEMP c),
      vol_All [vol_Coerce_int, vol_Range 1000 10000]) \<in> set (DOMAIN_SCHEMA h c)"
  by (simp_all add: DOMAIN_SCHEMA_def)

lemma set_bounds_lookup:
  "map_of (set_bounds a b a' b' d) CONF_MIN_BRIGHTNESS = Some (PInt a)"
  "map_of (set_bounds a b a' b' d) CONF_MAX_BRIGHTNESS = Some (PInt b)"
  "map_of (set_bounds a b a' b' d) CONF_MIN_COLOR_TEMP = Some (PInt a')"
  "map_of (set_bounds a b a' b' d) CONF_MAX_COLOR_TEMP = Some (PInt b')"
  by (simp_all add: set_bounds_def update_conv' conf_keys)

lemma set_bounds_accepted:
  assumes ok: "accepts (CONFIG_SCHEMA h c) (with_section doc d)"
      and br: "1 \<le> a" "a \<le> 100" "1 \<le> b" "b \<le> 100"
      and ct: "1000 \<le> a'" "a' \<le> 10000" "1000 \<le> b'" "b' \<le> 10000"
  shows "accepts (CONFIG_SCHEMA h c) (with_section doc (set_bounds a b a' b' d))"
proof -
  have 1: "accepts (CONFIG_SCHEMA h c) (with_section doc (AList.update CONF_MIN_BRIGHTNESS (PInt a) d))"
    using numeric_key_accepts [OF bounds_entries(2) ok, of "PInt a"] br by simp
  have 2: "accepts (CONFIG_SCHEMA h c) (with_section doc
      (AList.update CONF_MAX_BRIGHTNESS (PInt b) (AList.update CONF_MIN_BRIGHTNESS (PInt a) d)))"
    using numeric_key_accepts [OF bounds_entries(1) 1, of "PInt b"] br by simp
  have 3: "accepts (CONFIG_SCHEMA h c) (with_section doc
      (AList.update CONF_MIN_COLOR_TEMP (PInt a')
        (AList.update CONF_MAX_BRIGHTNESS (PInt b) (AList.update CONF_MIN_BRIGHTNESS (PInt a) d))))"
    using numeric_key_accepts [OF bounds_entries(4) 2, of "PInt a'"] ct by simp
  show ?thesis
    unfolding set_bounds_def
    using numeric_key_accepts [OF bounds_entries(3) 3, of "PInt b'"] ct by simp
qed

lemma set_bounds_settings:
  assumes ok: "accepts (CONFIG_SCHEMA h c) (with_section doc (set_bounds a b a' b' d))"
  shows "validated_setting (CONFIG_SCHEMA h c (with_section doc (set_bounds a b a' b' d)))
           CONF_MIN_BRIGHTNESS = Some (PInt a)"
    and "validated_setting (CONFIG_SCHEMA h c (with_section doc (set_bounds a b a' b' d)))
           CONF_MAX_BRIGHTNESS = Some (PInt b)"
    and "validated_setting (CONFIG_SCHEMA h c (with_section doc (set_bounds a b a' b' d)))
           CONF_MIN_COLOR_TEMP = Some (PInt a')"
    and "validated_setting (CONFIG_SCHEMA h c (with_section doc (set_bounds a b a' b' d)))
           CONF_MAX_COLOR_TEMP = Some (PInt b')"
proof -
  have r: "validated_setting (CONFIG_SCHEMA h c (with_section doc (set_bounds a b a' b' d))) k
           = Some (PInt n)"
    if e: "(m, k, dflt, vol_All [vol_Coerce_int, vol_Range lo hi]) \<in> set (DOMAIN_SCHEMA h c)"
      and v: "map_of (set_bounds a b a' b' d) k = Some (PInt n)" for m k dflt lo hi n
  proof -
    have "\<not> isl (vol_All [vol_Coerce_int, vol_Range lo hi] (PInt n))"
      using accepted_entry_value [OF ok e v] .
    then have "vol_All [vol_Coerce_int, vol_Range lo hi] (PInt n) = Inr (PInt n)"
      by (simp add: numeric_ok numeric_Inr)
    moreover have "entry_value (set_bounds a b a' b' d)
        (m, k, dflt, vol_All [vol_Coerce_int, vol_Range lo hi]) = Some (PInt n)"
      using v by simp
    ultimately show ?thesis
      using setting_of_accepted [OF ok e] by blast
  qed
  show "validated_setting (CONFIG_SCHEMA h c (with_section doc (set_bounds a b a' b' d)))
           CONF_MIN_BRIGHTNESS = Some (PInt a)"
    by (rule r [OF bounds_entries(2) set_bounds_lookup(1)])
  show "validated_setting (CONFIG_SCHEMA h c (with_section doc (set_bounds a b a' b' d)))
           CONF_MAX_BRIGHTNESS = Some (PInt b)"
    by (rule r [OF bounds_entries(1) set_bounds_lookup(2)])
  show "validated_setting (CONFIG_SCHEMA h c (with_section doc (set_bounds a b a' b' d)))
           CONF_MIN_COLOR_TEMP = Some (PInt a')"
    by (rule r [OF bounds_entries(4) set_bounds_lookup(3)])
  show "validated_setting (CONFIG_SCHEMA h c (with_section doc (set_bounds a b a' b' d)))
           CONF_MAX_COLOR_TEMP = Some (PInt b')"
    by (rule r [OF bounds_entries(3) set_bounds_lookup(4)])
qed

lemma bound_out_of_range_rejected:
  assumes e: "(m, k, dflt, vol_All [vol_Coerce_int, vol_Range lo hi]) \<in> set (DOMAIN_SCHEMA h c)"
      and v: "map_of d k = Some v" and bad: "\<not> (\<exists>n. py_int v = Inr n \<and> lo \<le> n \<and> n \<le> hi)"
  shows "\<not> accepts (CONFIG_SCHEMA h c) (with_section doc d)"
  using accepted_entry_value [OF _ e v] bad by (auto simp: numeric_ok)

lemma ha_interval_accepted:
  "accepts (CONFIG_SCHEMA ha defaults0) (with_section doc [(CONF_INTERVAL, PInt 5)])"
  using section_update [OF interval_entry [of ha defaults0] distinct_domain_keys,
      where ex = PREVENT_EXTRA and d = "[]" and v = "PInt 5"]
    ha_defaults_accepted [of doc]
  by (simp add: config_schema_accepts ha_def)

lemma schema_accepts_section:
  "accepts (Schema (DOMAIN_SCHEMA h c) PREVENT_EXTRA) (PDict d) \<longleftrightarrow>
   accepts (CONFIG_SCHEMA h c) (with_section [] d)"
  by (simp add: config_schema_domain [of "[(DOMAIN, PDict d)]"] with_section_Nil)

lemma config_schema_result:
  assumes "accepts (CONFIG_SCHEMA h c) (PDict doc)"
  shows "\<exists>out. CONFIG_SCHEMA h c (PDict doc) = Inr (PDict out)"
  using assms
  by (cases "validate_mapping [(Bare, DOMAIN, None, Schema (DOMAIN_SCHEMA h c) PREVENT_EXTRA)]
               ALLOW_EXTRA doc")
     (auto simp: accepts_def CONFIG_SCHEMA_def Schema_def [of "[x]" for x])

lemma float_truncated: "py_int (PFloat (Finite (1009 / 10))) = Inr 100"
proof -
  have "\<lfloor>1009 / 10 :: rat\<rfloor> = 100"
    by (rule floor_unique) simp_all
  then show ?thesis by (simp add: py_trunc_def)
qed

section \<open>Facts about the photometric curve\<close>

lemma clamp_bounds:
  assumes "low \<le> high"
  shows "low \<le> clamp low high value" and "clamp low high value \<le> high"
  using assms by (simp_all add: clamp_def)
















text \<open>
  The spec's scenario (section 8): bounds 2700 K to 5500 K and 1 to 100, solar midnight at
  00:00, solar noon at 12:00, now 06:00; here sunrise is at 06:00 too, with the knot values
  of \<open>knots0\<close>.
\<close>

lemma scenario_value:
  "compute floor knots0 21600 anchors0 config0
   = \<lparr>color_temperature_kelvin = 4100, brightness_percent = 50\<rparr>"
  by (simp add: compute_def curve_def interpolate_def elapsed_fraction_def anchors0_def
      knots0_def config0_def clamp_def next_midnight_def)

section \<open>The claims\<close>

text \<open>
  C2. A value supplied for \<^verbatim>\<open>min_brightness\<close>, \<^verbatim>\<open>max_brightness\<close> or \<^verbatim>\<open>sleep_brightness\<close> is
  accepted by configuration validation if and only if \<^verbatim>\<open>int(value)\<close> succeeds and gives an
  integer of the closed range from 1 to 100: in any document that \<^verbatim>\<open>CONFIG_SCHEMA\<close> accepts,
  setting the key to the value \<open>v\<close> gives a document that is accepted exactly in that
  case. The range is tested on the coerced integer (the float 100.9 coerces to 100).
\<close>

theorem brightness_accepted_iff_int_in_range:
  assumes "k \<in> {CONF_MIN_BRIGHTNESS, CONF_MAX_BRIGHTNESS, CONF_SLEEP_BRIGHTNESS}"
      and "accepts (CONFIG_SCHEMA h c) (with_section doc d)"
  shows "accepts (CONFIG_SCHEMA h c) (with_section doc (AList.update k v d)) \<longleftrightarrow>
         (\<exists>n. py_int v = Inr n \<and> 1 \<le> n \<and> n \<le> 100)"
  using assms numeric_key_accepts [OF brightness_entries(1)]
    numeric_key_accepts [OF brightness_entries(2)] numeric_key_accepts [OF brightness_entries(3)]
  by auto

theorem brightness_accepted_iff_int_in_range_witness:
  "accepts (CONFIG_SCHEMA ha defaults0) (with_section [] [])
   \<and> accepts (CONFIG_SCHEMA ha defaults0) (with_section [] [(CONF_MIN_BRIGHTNESS, PInt 100)])
   \<and> accepts (CONFIG_SCHEMA ha defaults0) (with_section [] [(CONF_MIN_BRIGHTNESS, PBool True)])
   \<and> accepts (CONFIG_SCHEMA ha defaults0)
        (with_section [] [(CONF_MIN_BRIGHTNESS, PFloat (Finite (1009 / 10)))])
   \<and> \<not> accepts (CONFIG_SCHEMA ha defaults0) (with_section [] [(CONF_MIN_BRIGHTNESS, PInt 101)])
   \<and> \<not> accepts (CONFIG_SCHEMA ha defaults0) (with_section [] [(CONF_MIN_BRIGHTNESS, PInt 0)])
   \<and> \<not> accepts (CONFIG_SCHEMA ha defaults0) (with_section [] [(CONF_MIN_BRIGHTNESS, PNone)])"
  using ha_defaults_accepted [of "[]"] float_truncated
    brightness_accepted_iff_int_in_range [of CONF_MIN_BRIGHTNESS ha defaults0 "[]" "[]" "PInt 100"]
    brightness_accepted_iff_int_in_range [of CONF_MIN_BRIGHTNESS ha defaults0 "[]" "[]" "PBool True"]
    brightness_accepted_iff_int_in_range [of CONF_MIN_BRIGHTNESS ha defaults0 "[]" "[]"
      "PFloat (Finite (1009 / 10))"]
    brightness_accepted_iff_int_in_range [of CONF_MIN_BRIGHTNESS ha defaults0 "[]" "[]" "PInt 101"]
    brightness_accepted_iff_int_in_range [of CONF_MIN_BRIGHTNESS ha defaults0 "[]" "[]" "PInt 0"]
    brightness_accepted_iff_int_in_range [of CONF_MIN_BRIGHTNESS ha defaults0 "[]" "[]" PNone]
  by simp

text \<open>
  C3. A value supplied for \<^verbatim>\<open>min_color_temp\<close>, \<^verbatim>\<open>max_color_temp\<close> or \<^verbatim>\<open>sleep_color_temp\<close> is
  accepted by configuration validation if and only if \<^verbatim>\<open>int(value)\<close> succeeds and gives an
  integer of the closed range from 1000 to 10000: in any document that \<^verbatim>\<open>CONFIG_SCHEMA\<close>
  accepts, setting the key to the value \<open>v\<close> gives a document that is accepted exactly in
  that case.
\<close>

theorem color_temp_accepted_iff_int_in_range:
  assumes "k \<in> {CONF_MIN_COLOR_TEMP, CONF_MAX_COLOR_TEMP, CONF_SLEEP_COLOR_TEMP}"
      and "accepts (CONFIG_SCHEMA h c) (with_section doc d)"
  shows "accepts (CONFIG_SCHEMA h c) (with_section doc (AList.update k v d)) \<longleftrightarrow>
         (\<exists>n. py_int v = Inr n \<and> 1000 \<le> n \<and> n \<le> 10000)"
  using assms numeric_key_accepts [OF color_temp_entries(1)]
    numeric_key_accepts [OF color_temp_entries(2)] numeric_key_accepts [OF color_temp_entries(3)]
  by auto

theorem color_temp_accepted_iff_int_in_range_witness:
  "accepts (CONFIG_SCHEMA ha defaults0) (with_section [] [])
   \<and> accepts (CONFIG_SCHEMA ha defaults0) (with_section [] [(CONF_SLEEP_COLOR_TEMP, PInt 1000)])
   \<and> accepts (CONFIG_SCHEMA ha defaults0) (with_section [] [(CONF_SLEEP_COLOR_TEMP, PInt 10000)])
   \<and> \<not> accepts (CONFIG_SCHEMA ha defaults0) (with_section [] [(CONF_SLEEP_COLOR_TEMP, PInt 999)])
   \<and> \<not> accepts (CONFIG_SCHEMA ha defaults0) (with_section [] [(CONF_SLEEP_COLOR_TEMP, PInt 10001)])
   \<and> \<not> accepts (CONFIG_SCHEMA ha defaults0) (with_section [] [(CONF_SLEEP_COLOR_TEMP, PList [])])"
  using ha_defaults_accepted [of "[]"]
    color_temp_accepted_iff_int_in_range [of CONF_SLEEP_COLOR_TEMP ha defaults0 "[]" "[]" "PInt 1000"]
    color_temp_accepted_iff_int_in_range [of CONF_SLEEP_COLOR_TEMP ha defaults0 "[]" "[]" "PInt 10000"]
    color_temp_accepted_iff_int_in_range [of CONF_SLEEP_COLOR_TEMP ha defaults0 "[]" "[]" "PInt 999"]
    color_temp_accepted_iff_int_in_range [of CONF_SLEEP_COLOR_TEMP ha defaults0 "[]" "[]" "PInt 10001"]
    color_temp_accepted_iff_int_in_range [of CONF_SLEEP_COLOR_TEMP ha defaults0 "[]" "[]" "PList []"]
  by simp

text \<open>
  C9. For each of the six numeric keys, a value supplied as a decimal string that parses
  to an integer of the key's range is accepted, and the validated configuration holds
  that integer (not the string) under the key. A decimal string parses when it is a
  non-empty string of decimal digits of no more digits than the interpreter's limit
  (\<open>max_str_digits\<close>, 4300); a longer one raises \<^verbatim>\<open>ValueError\<close> in \<^verbatim>\<open>int\<close> and is rejected
  (\<open>py_int_str_too_long\<close>).
\<close>

theorem decimal_string_accepted_as_integer:
  assumes range: "(k \<in> {CONF_MIN_BRIGHTNESS, CONF_MAX_BRIGHTNESS, CONF_SLEEP_BRIGHTNESS}
                    \<and> 1 \<le> decimal_value s \<and> decimal_value s \<le> 100)
                \<or> (k \<in> {CONF_MIN_COLOR_TEMP, CONF_MAX_COLOR_TEMP, CONF_SLEEP_COLOR_TEMP}
                    \<and> 1000 \<le> decimal_value s \<and> decimal_value s \<le> 10000)"
      and digits: "s \<noteq> []" "list_all is_digit s" "length s \<le> max_str_digits"
      and ok: "accepts (CONFIG_SCHEMA h c) (with_section doc d)"
  shows "accepts (CONFIG_SCHEMA h c) (with_section doc (AList.update k (PStr s) d))
         \<and> validated_setting (CONFIG_SCHEMA h c (with_section doc (AList.update k (PStr s) d))) k
             = Some (PInt (int (decimal_value s)))"
proof -
  have n: "py_int (PStr s) = Inr (int (decimal_value s))"
    using py_int_str_digits [OF digits] by simp
  from range obtain m dflt lo hi where
    e: "(m, k, dflt, vol_All [vol_Coerce_int, vol_Range lo hi]) \<in> set (DOMAIN_SCHEMA h c)"
    and lo: "lo \<le> int (decimal_value s)" and hi: "int (decimal_value s) \<le> hi"
    using brightness_entries [of c h] color_temp_entries [of c h] by fastforce
  have acc: "accepts (CONFIG_SCHEMA h c) (with_section doc (AList.update k (PStr s) d))"
    using numeric_key_accepts [OF e ok, of "PStr s"] n lo hi by simp
  from numeric_key_setting [OF e acc n] acc show ?thesis by simp
qed

theorem decimal_string_accepted_as_integer_witness:
  "accepts (CONFIG_SCHEMA ha defaults0) (with_section [] [])
   \<and> accepts (CONFIG_SCHEMA ha defaults0) (with_section [] [(CONF_MAX_BRIGHTNESS, PStr ''50'')])
   \<and> validated_setting
        (CONFIG_SCHEMA ha defaults0 (with_section [] [(CONF_MAX_BRIGHTNESS, PStr ''50'')]))
        CONF_MAX_BRIGHTNESS = Some (PInt 50)"
  using ha_defaults_accepted [of "[]"]
    decimal_string_accepted_as_integer [of CONF_MAX_BRIGHTNESS "''50''" ha defaults0 "[]" "[]"]
  by (simp add: is_digit_def digit_of_def max_str_digits_def)

text \<open>
  C6. When the \<^verbatim>\<open>interval\<close> key is omitted, validation fills in the default, 90 seconds:
  if the configuration validates with some value for \<^verbatim>\<open>interval\<close> (its other keys are
  valid), then it validates without the key too, and the validated configuration holds
  the duration of 90 seconds under \<^verbatim>\<open>interval\<close>. The default is the number 90, which the
  host's \<^verbatim>\<open>cv.time_period\<close> reads as a number of seconds (the first hypothesis).
\<close>

theorem omitted_interval_defaults_to_90_seconds:
  assumes host: "cv_time_period h DEFAULT_INTERVAL = Inr (PTimedelta (90 * 1000000))"
      and omitted: "map_of d CONF_INTERVAL = None"
      and rest: "accepts (CONFIG_SCHEMA h c) (with_section doc (AList.update CONF_INTERVAL v d))"
  shows "accepts (CONFIG_SCHEMA h c) (with_section doc d)
         \<and> validated_setting (CONFIG_SCHEMA h c (with_section doc d)) CONF_INTERVAL
             = Some (PTimedelta (90 * 1000000))"
proof -
  have ok: "accepts (CONFIG_SCHEMA h c) (with_section doc d)"
    using omitted_default_accepted
        [OF interval_entry distinct_domain_keys omitted, where ex = PREVENT_EXTRA and v = v]
      host rest
    by (simp add: config_schema_accepts)
  have "entry_value d (Optional, CONF_INTERVAL, Some DEFAULT_INTERVAL, cv_time_period h)
        = Some DEFAULT_INTERVAL"
    using omitted by simp
  from setting_of_accepted [OF ok interval_entry this host] ok show ?thesis by simp
qed

theorem omitted_interval_defaults_to_90_seconds_witness:
  "cv_time_period ha DEFAULT_INTERVAL = Inr (PTimedelta (90 * 1000000))
   \<and> map_of [] CONF_INTERVAL = (None :: pyval option)
   \<and> accepts (CONFIG_SCHEMA ha defaults0) (with_section [] [(CONF_INTERVAL, PInt 5)])
   \<and> accepts (CONFIG_SCHEMA ha defaults0) (with_section [] [])
   \<and> validated_setting (CONFIG_SCHEMA ha defaults0 (with_section [] [])) CONF_INTERVAL
       = Some (PTimedelta (90 * 1000000))"
  using omitted_interval_defaults_to_90_seconds [of ha "[]" defaults0 "[]" "PInt 5"]
    ha_interval_accepted [of "[]"]
  by (simp add: ha_def DEFAULT_INTERVAL_def)

text \<open>
  C1, as amended. \<^verbatim>\<open>CONFIG_SCHEMA\<close> does not compare a minimum with its maximum: in any
  configuration that it accepts, setting \<^verbatim>\<open>min_brightness\<close> and \<^verbatim>\<open>max_brightness\<close> to any
  two integers from 1 to 100 and \<^verbatim>\<open>min_color_temp\<close> and \<^verbatim>\<open>max_color_temp\<close> to any two
  integers from 1000 to 10000, the minimum above the maximum or not, gives a configuration
  that is accepted, and the validated configuration holds these four values.
\<close>

theorem bounds_are_validated_separately:
  assumes ok: "accepts (CONFIG_SCHEMA h c) (with_section doc d)"
      and br: "1 \<le> min_b" "min_b \<le> 100" "1 \<le> max_b" "max_b \<le> 100"
      and ct: "1000 \<le> min_ct" "min_ct \<le> 10000" "1000 \<le> max_ct" "max_ct \<le> 10000"
  shows "accepts (CONFIG_SCHEMA h c) (with_section doc (set_bounds min_b max_b min_ct max_ct d))
    \<and> validated_setting (CONFIG_SCHEMA h c (with_section doc (set_bounds min_b max_b min_ct max_ct d)))
        CONF_MIN_BRIGHTNESS = Some (PInt min_b)
    \<and> validated_setting (CONFIG_SCHEMA h c (with_section doc (set_bounds min_b max_b min_ct max_ct d)))
        CONF_MAX_BRIGHTNESS = Some (PInt max_b)
    \<and> validated_setting (CONFIG_SCHEMA h c (with_section doc (set_bounds min_b max_b min_ct max_ct d)))
        CONF_MIN_COLOR_TEMP = Some (PInt min_ct)
    \<and> validated_setting (CONFIG_SCHEMA h c (with_section doc (set_bounds min_b max_b min_ct max_ct d)))
        CONF_MAX_COLOR_TEMP = Some (PInt max_ct)"
  using set_bounds_accepted [OF assms] set_bounds_settings [OF set_bounds_accepted [OF assms]]
  by simp

theorem bounds_are_validated_separately_witness:
  "accepts (CONFIG_SCHEMA ha defaults0) (with_section [] [])
   \<and> accepts (CONFIG_SCHEMA ha defaults0) (with_section [] (set_bounds 80 20 6000 3000 []))
   \<and> validated_setting (CONFIG_SCHEMA ha defaults0 (with_section [] (set_bounds 80 20 6000 3000 [])))
        CONF_MIN_BRIGHTNESS = Some (PInt 80)
   \<and> validated_setting (CONFIG_SCHEMA ha defaults0 (with_section [] (set_bounds 80 20 6000 3000 [])))
        CONF_MAX_BRIGHTNESS = Some (PInt 20)"
  using bounds_are_validated_separately [of ha defaults0 "[]" "[]" 80 20 6000 3000]
    ha_defaults_accepted [of "[]"]
  by simp

text \<open>
  C1 as stated fails: the configuration with \<^verbatim>\<open>min_brightness: 80\<close>, \<^verbatim>\<open>max_brightness: 20\<close>,
  \<^verbatim>\<open>min_color_temp: 6000\<close> and \<^verbatim>\<open>max_color_temp: 3000\<close> is accepted, and the validated
  configuration holds these bounds.
\<close>

theorem min_above_max_is_accepted:
  "accepts (CONFIG_SCHEMA ha defaults0)
     (PDict [(DOMAIN, PDict [(CONF_MIN_BRIGHTNESS, PInt 80), (CONF_MAX_BRIGHTNESS, PInt 20),
                             (CONF_MIN_COLOR_TEMP, PInt 6000), (CONF_MAX_COLOR_TEMP, PInt 3000)])])
   \<and> validated_setting (CONFIG_SCHEMA ha defaults0
     (PDict [(DOMAIN, PDict [(CONF_MIN_BRIGHTNESS, PInt 80), (CONF_MAX_BRIGHTNESS, PInt 20),
                             (CONF_MIN_COLOR_TEMP, PInt 6000), (CONF_MAX_COLOR_TEMP, PInt 3000)])]))
       CONF_MIN_BRIGHTNESS = Some (PInt 80)
   \<and> validated_setting (CONFIG_SCHEMA ha defaults0
     (PDict [(DOMAIN, PDict [(CONF_MIN_BRIGHTNESS, PInt 80), (CONF_MAX_BRIGHTNESS, PInt 20),
                             (CONF_MIN_COLOR_TEMP, PInt 6000), (CONF_MAX_COLOR_TEMP, PInt 3000)])]))
       CONF_MAX_BRIGHTNESS = Some (PInt 20)
   \<and> validated_setting (CONFIG_SCHEMA ha defaults0
     (PDict [(DOMAIN, PDict [(CONF_MIN_BRIGHTNESS, PInt 80), (CONF_MAX_BRIGHTNESS, PInt 20),
                             (CONF_MIN_COLOR_TEMP, PInt 6000), (CONF_MAX_COLOR_TEMP, PInt 3000)])]))
       CONF_MIN_COLOR_TEMP = Some (PInt 6000)
   \<and> validated_setting (CONFIG_SCHEMA ha defaults0
     (PDict [(DOMAIN, PDict [(CONF_MIN_BRIGHTNESS, PInt 80), (CONF_MAX_BRIGHTNESS, PInt 20),
                             (CONF_MIN_COLOR_TEMP, PInt 6000), (CONF_MAX_COLOR_TEMP, PInt 3000)])]))
       CONF_MAX_COLOR_TEMP = Some (PInt 3000)"
proof -
  have d: "set_bounds 80 20 6000 3000 [] =
        [(CONF_MIN_BRIGHTNESS, PInt 80), (CONF_MAX_BRIGHTNESS, PInt 20),
         (CONF_MIN_COLOR_TEMP, PInt 6000), (CONF_MAX_COLOR_TEMP, PInt 3000)]"
    by (simp add: set_bounds_def conf_keys)
  have ok: "accepts (CONFIG_SCHEMA ha defaults0) (with_section [] (set_bounds 80 20 6000 3000 []))"
    by (rule set_bounds_accepted [OF ha_defaults_accepted]) simp_all
  from ok set_bounds_settings [OF ok] show ?thesis
    by (simp add: d with_section_Nil)
qed

text \<open>
  C8. Top-level keys other than the domain key are allowed: they never make
  \<^verbatim>\<open>CONFIG_SCHEMA\<close> reject a document. A document without the domain key is accepted,
  whatever keys it has, and returned as it is;
  a document with the domain key is accepted exactly when its section under that key
  passes the domain's schema; and the validated document keeps every other key with its
  value.
\<close>

theorem extra_top_level_keys_never_reject:
  "(map_of doc DOMAIN = None \<longrightarrow> CONFIG_SCHEMA h c (PDict doc) = Inr (PDict doc))
   \<and> (\<forall>sec. map_of doc DOMAIN = Some sec \<longrightarrow>
         (accepts (CONFIG_SCHEMA h c) (PDict doc) \<longleftrightarrow>
          accepts (Schema (DOMAIN_SCHEMA h c) PREVENT_EXTRA) sec))
   \<and> (\<forall>out k. CONFIG_SCHEMA h c (PDict doc) = Inr (PDict out) \<and> k \<noteq> DOMAIN \<longrightarrow>
         map_of out k = map_of doc k)"
  using config_schema_no_domain [of doc h c] config_schema_domain [of doc _ h c]
    config_schema_extra_kept [of h c doc]
  by blast

theorem extra_top_level_keys_never_reject_witness:
  "CONFIG_SCHEMA ha defaults0 (PDict [(''sensor'', PList [])]) = Inr (PDict [(''sensor'', PList [])])
   \<and> accepts (CONFIG_SCHEMA ha defaults0) (PDict [(DOMAIN, PDict []), (''sensor'', PList [])])
   \<and> (\<exists>out. CONFIG_SCHEMA ha defaults0 (PDict [(DOMAIN, PDict []), (''sensor'', PList [])])
               = Inr (PDict out)
            \<and> map_of out ''sensor'' = Some (PList []))"
proof -
  let ?doc = "[(DOMAIN, PDict []), (''sensor'', PList [])]"
  have acc: "accepts (CONFIG_SCHEMA ha defaults0) (PDict ?doc)"
    using extra_top_level_keys_never_reject [of ?doc ha defaults0] ha_defaults_accepted [of "[]"]
    by (simp add: schema_accepts_section)
  then obtain out where out: "CONFIG_SCHEMA ha defaults0 (PDict ?doc) = Inr (PDict out)"
    using config_schema_result by blast
  have "map_of out ''sensor'' = Some (PList [])"
    using extra_top_level_keys_never_reject [of ?doc ha defaults0] out
    by (simp add: conf_keys)
  with acc out show ?thesis
    using extra_top_level_keys_never_reject [of "[(''sensor'', PList [])]" ha defaults0]
    by (simp add: conf_keys)
qed

text \<open>
  C7. \<^verbatim>\<open>_SUPPORT_OPTS\<close> maps the names \<^verbatim>\<open>brightness\<close>, \<^verbatim>\<open>color_temp\<close>, \<^verbatim>\<open>color\<close> and
  \<^verbatim>\<open>transition\<close> to the host's \<^verbatim>\<open>SUPPORT_BRIGHTNESS\<close>, \<^verbatim>\<open>SUPPORT_COLOR_TEMP\<close>, \<^verbatim>\<open>SUPPORT_COLOR\<close>
  and \<^verbatim>\<open>SUPPORT_TRANSITION\<close>, and has no other entry.
\<close>

theorem support_opts_four_entries:
  "map_of (SUPPORT_OPTS l) ''brightness'' = Some (SUPPORT_BRIGHTNESS l)
   \<and> map_of (SUPPORT_OPTS l) ''color_temp'' = Some (SUPPORT_COLOR_TEMP l)
   \<and> map_of (SUPPORT_OPTS l) ''color'' = Some (SUPPORT_COLOR l)
   \<and> map_of (SUPPORT_OPTS l) ''transition'' = Some (SUPPORT_TRANSITION l)
   \<and> dom (map_of (SUPPORT_OPTS l)) = {''brightness'', ''color_temp'', ''color'', ''transition''}
   \<and> distinct (map fst (SUPPORT_OPTS l))
   \<and> length (SUPPORT_OPTS l) = 4"
  by (simp add: SUPPORT_OPTS_def dom_map_of_conv_image_fst)

text \<open>
  C10. \<^verbatim>\<open>async_setup\<close> returns \<^verbatim>\<open>True\<close> for every configuration. When the configuration
  has the domain key, it schedules one task, the config-entry import flow with the
  section under that key as its data; when the key is absent, the host's state is
  unchanged. So a task is created exactly when the domain key is present.
\<close>

theorem async_setup_imports_iff_domain_present:
  "fst (async_setup hass config) = True
   \<and> (\<forall>data. map_of config DOMAIN = Some data \<longrightarrow>
         snd (async_setup hass config) =
           hass\<lparr>tasks := tasks hass @ [Flow_async_init DOMAIN [(''source'', SOURCE_IMPORT)] data]\<rparr>)
   \<and> (map_of config DOMAIN = None \<longrightarrow> snd (async_setup hass config) = hass)
   \<and> (tasks (snd (async_setup hass config)) \<noteq> tasks hass \<longleftrightarrow> DOMAIN \<in> fst ` set config)"
  by (auto simp: async_setup_def async_create_task_def map_of_eq_None_iff
      split: option.splits dest: map_of_SomeD intro: rev_image_eqI)

theorem async_setup_imports_iff_domain_present_witness:
  "async_setup \<lparr>tasks = []\<rparr> [(''sensor'', PNone), (DOMAIN, PDict [])]
     = (True, \<lparr>tasks = [Flow_async_init DOMAIN [(''source'', SOURCE_IMPORT)] (PDict []) :: unit task]\<rparr>)
   \<and> async_setup \<lparr>tasks = [] :: unit task list\<rparr> [(''sensor'', PNone)] = (True, \<lparr>tasks = []\<rparr>)"
  using async_setup_imports_iff_domain_present
      [of "\<lparr>tasks = [] :: unit task list\<rparr>" "[(''sensor'', PNone), (DOMAIN, PDict [])]"]
    async_setup_imports_iff_domain_present
      [of "\<lparr>tasks = [] :: unit task list\<rparr>" "[(''sensor'', PNone)]"]
  by (simp add: prod_eq_iff conf_keys)

text \<open>
  C4. For every input time and every valid configuration, that is, one that meets the
  spec's invariants \<open>min_brightness \<le> max_brightness\<close> and
  \<open>min_color_temp \<le> max_color_temp\<close>, the computed brightness lies between
  \<open>min_brightness\<close> and \<open>max_brightness\<close> and the computed colour temperature between
  \<open>min_color_temp\<close> and \<open>max_color_temp\<close>, whatever the anchors, the knot values and the
  conversion to integers are.
\<close>

theorem computed_setting_within_bounds:
  assumes "min_brightness cfg \<le> max_brightness cfg"
      and "min_color_temp cfg \<le> max_color_temp cfg"
  shows "min_brightness cfg \<le> brightness_percent (compute to_int kn now a cfg)
       \<and> brightness_percent (compute to_int kn now a cfg) \<le> max_brightness cfg
       \<and> min_color_temp cfg \<le> color_temperature_kelvin (compute to_int kn now a cfg)
       \<and> color_temperature_kelvin (compute to_int kn now a cfg) \<le> max_color_temp cfg"
  using assms by (simp add: compute_def clamp_bounds)

theorem computed_setting_within_bounds_witness:
  "min_brightness config0 \<le> max_brightness config0
   \<and> min_color_temp config0 \<le> max_color_temp config0
   \<and> min_brightness config0 \<le> brightness_percent (compute floor knots0 21600 anchors0 config0)
   \<and> brightness_percent (compute floor knots0 21600 anchors0 config0) \<le> max_brightness config0
   \<and> min_color_temp config0 \<le> color_temperature_kelvin (compute floor knots0 21600 anchors0 config0)
   \<and> color_temperature_kelvin (compute floor knots0 21600 anchors0 config0) \<le> max_color_temp config0"
  using computed_setting_within_bounds
    [where cfg = config0 and to_int = floor and kn = knots0 and now = 21600 and a = anchors0]
  by (simp add: config0_def)



end
